theory Spec2Isabelle
  imports Main
begin

section \<open>Data model\<close>

text \<open>
  The documents of the content store, as the Mongoose schemas declare them
  (\<^verbatim>\<open>backend/src/models\<close> and their copies under \<^verbatim>\<open>worker/src/models\<close>).
  An \<^verbatim>\<open>ObjectId\<close> is a natural number, a \<^verbatim>\<open>Date\<close> is a valid time in
  milliseconds, an optional path (\<^verbatim>\<open>undefined\<close> or \<^verbatim>\<open>null\<close>) is an \<open>option\<close>.
  A lesson holds the schema's declared paths and the \<^verbatim>\<open>createdAt\<close> and \<^verbatim>\<open>updatedAt\<close>
  paths that the schema's \<^verbatim>\<open>timestamps\<close> option adds. A program and a term hold their
  declared paths; no property below reads their timestamps.
\<close>

type_synonym objectId = nat
type_synonym date = int

datatype program_status = ProgramDraft | ProgramPublished | ProgramArchived

datatype difficulty = Beginner | Intermediate | Advanced

record program =
  title :: string
  description :: "string option"
  youtubeUrl :: "string option"
  youtubeVideoId :: "string option"
  thumbnail :: string
  customThumbnail :: bool
  languagePrimary :: string
  languagesAvailable :: "string list"
  status :: program_status
  publishedAt :: "date option"
  topicIds :: "objectId list"
  difficulty :: difficulty
  duration :: "nat option"
  price :: nat
  tags :: "string list"

record "term" =
  programId :: objectId
  termNumber :: nat
  title :: "string option"

datatype variant = Portrait | Landscape | Square | Banner

datatype asset_type = Thumbnail

record lesson_asset =
  lessonId :: objectId
  language :: string
  variant :: variant
  assetType :: asset_type
  url :: string

datatype lesson_status = Draft | Scheduled | Published | Archived

datatype content_type = Video | Article

record lesson =
  termId :: objectId
  lessonNumber :: nat
  title :: string
  contentType :: content_type
  durationMs :: "nat option"
  isPaid :: bool
  contentLanguagePrimary :: string
  contentLanguagesAvailable :: "string list"
  contentUrlsByLanguage :: "(string \<times> string) list"
  subtitleLanguages :: "string list"
  subtitleUrlsByLanguage :: "(string \<times> string) list"
  status :: lesson_status
  publishAt :: "date option"
  publishedAt :: "date option"
  createdAt :: date
  updatedAt :: date

text \<open>
  The database: one collection per model, each document stored under its \<^verbatim>\<open>_id\<close>.
\<close>

record db =
  lessons :: "(objectId \<times> lesson) list"
  terms :: "(objectId \<times> term) list"
  programs :: "(objectId \<times> program) list"
  lessonAssets :: "lesson_asset list"

text \<open>
  What the operations throw. \<open>NotFound\<close> and \<open>ValidationError\<close> are the controller's
  \<^verbatim>\<open>createError\<close> calls (404 and 400), the latter also a schema validator's
  rejection; \<open>AssetsIncomplete\<close> is the \<^verbatim>\<open>Error\<close> of \<^verbatim>\<open>publish\<close>, whose message
  lists the missing variants; \<open>InvalidSchedule\<close> is the \<^verbatim>\<open>Error\<close> of \<^verbatim>\<open>schedule\<close>;
  \<open>DocumentNotFound\<close> and \<open>StorageError\<close> are the ways a \<^verbatim>\<open>save()\<close> rejects (the
  document is gone, or the storage refuses the write); \<open>MissingSchemaError\<close> is what
  \<^verbatim>\<open>mongoose.model(name)\<close> throws when the process has registered no model of that name.
\<close>

datatype error =
    NotFound
  | ValidationError
  | AssetsIncomplete "variant list"
  | InvalidSchedule
  | DocumentNotFound
  | StorageError
  | MissingSchemaError

text \<open>
  The writes the storage can refuse, and the environment's choice of which ones it refuses.
\<close>

datatype db_write = WriteLesson objectId | WriteProgram objectId

type_synonym faults = "db_write \<Rightarrow> bool"

section \<open>Storage operations\<close>

definition findLesson :: "db \<Rightarrow> objectId \<Rightarrow> lesson option" where
  "findLesson d i = map_of (lessons d) i"

definition findTerm :: "db \<Rightarrow> objectId \<Rightarrow> term option" where
  "findTerm d i = map_of (terms d) i"

definition findProgram :: "db \<Rightarrow> objectId \<Rightarrow> program option" where
  "findProgram d i = map_of (programs d) i"

text \<open>
  The validators the lesson schema attaches to \<^verbatim>\<open>publishAt\<close> and \<^verbatim>\<open>publishedAt\<close>, as
  written, and their run at a save: a path's validator runs only when the path holds a
  value, so a date that is \<^verbatim>\<open>undefined\<close> is never rejected. The validators of the
  other paths concern paths that no lifecycle operation assigns.
\<close>

definition validatePublishAt :: "lesson \<Rightarrow> bool" where
  "validatePublishAt l = (status l \<noteq> Scheduled \<or> publishAt l \<noteq> None)"

definition validatePublishedAt :: "lesson \<Rightarrow> bool" where
  "validatePublishedAt l = (status l \<noteq> Published \<or> publishedAt l \<noteq> None)"

definition validatesOnSave :: "lesson \<Rightarrow> bool" where
  "validatesOnSave l =
     ((publishAt l = None \<or> validatePublishAt l) \<and> (publishedAt l = None \<or> validatePublishedAt l))"

text \<open>
  A document remembers the values it was loaded with, and \<^verbatim>\<open>save()\<close> sends only the
  paths whose value differs from the loaded one. The lifecycle methods assign
  \<^verbatim>\<open>status\<close>, \<^verbatim>\<open>publishAt\<close> and \<^verbatim>\<open>publishedAt\<close>; \<open>isModified loaded l\<close> says that one
  of them changed. The hook of the \<^verbatim>\<open>timestamps\<close> option then sets \<^verbatim>\<open>updatedAt\<close> to
  the clock (\<open>stamp\<close>) on the document about to be saved.
\<close>

definition isModified :: "lesson \<Rightarrow> lesson \<Rightarrow> bool" where
  "isModified loaded l =
     (status l \<noteq> status loaded \<or> publishAt l \<noteq> publishAt loaded
      \<or> publishedAt l \<noteq> publishedAt loaded)"

definition timestampsPreSave :: "date \<Rightarrow> lesson \<Rightarrow> lesson \<Rightarrow> lesson" where
  "timestampsPreSave stamp loaded l = (if isModified loaded l then l\<lparr>updatedAt := stamp\<rparr> else l)"

text \<open>
  The update that a save sends, applied to the document as it is stored: each of the
  four paths is overwritten when the saved document differs from the loaded one there,
  and left as stored otherwise.
\<close>

definition writeModified :: "lesson \<Rightarrow> lesson \<Rightarrow> lesson \<Rightarrow> lesson" where
  "writeModified loaded l stored =
     stored\<lparr>status := (if status l \<noteq> status loaded then status l else status stored),
            publishAt := (if publishAt l \<noteq> publishAt loaded then publishAt l else publishAt stored),
            publishedAt :=
              (if publishedAt l \<noteq> publishedAt loaded then publishedAt l else publishedAt stored),
            updatedAt := (if updatedAt l \<noteq> updatedAt loaded then updatedAt l else updatedAt stored)\<rparr>"

text \<open>The update of one document by \<^verbatim>\<open>_id\<close>: the first document stored under it.\<close>

fun storeAt :: "objectId \<Rightarrow> 'a \<Rightarrow> (objectId \<times> 'a) list \<Rightarrow> (objectId \<times> 'a) list" where
  "storeAt i v [] = []"
| "storeAt i v ((j, x) # xs) = (if j = i then (i, v) # xs else (j, x) # storeAt i v xs)"

text \<open>
  \<^verbatim>\<open>document.save()\<close> of the lesson \<open>l\<close> that was loaded as \<open>loaded\<close>: the timestamps hook
  and the validators run; without a modified path nothing is sent (the document must
  still exist); otherwise the modified paths are written to the stored document by
  \<^verbatim>\<open>_id\<close>, with no condition on any path. The result is the document in memory after
  the save and the database.
\<close>

definition saveLesson :: "faults \<Rightarrow> date \<Rightarrow> db \<Rightarrow> objectId \<Rightarrow> lesson \<Rightarrow> lesson \<Rightarrow> error + lesson \<times> db" where
  "saveLesson fails stamp d i loaded l =
     (let l' = timestampsPreSave stamp loaded l in
      if \<not> validatesOnSave l' then Inl ValidationError
      else if \<not> isModified loaded l
      then (if findLesson d i = None then Inl DocumentNotFound else Inr (l', d))
      else if fails (WriteLesson i) then Inl StorageError
      else (case findLesson d i of
              None \<Rightarrow> Inl DocumentNotFound
            | Some stored \<Rightarrow>
                Inr (l', d\<lparr>lessons := storeAt i (writeModified loaded l' stored) (lessons d)\<rparr>)))"

text \<open>
  \<^verbatim>\<open>document.save()\<close> of a program, which is always saved right after it was loaded: the
  stored document takes the values assigned.
\<close>

definition saveProgram :: "faults \<Rightarrow> db \<Rightarrow> objectId \<Rightarrow> program \<Rightarrow> error + db" where
  "saveProgram fails d i p =
     (if fails (WriteProgram i) then Inl StorageError
      else if findProgram d i = None then Inl DocumentNotFound
      else Inr (d\<lparr>programs := map (\<lambda>(j, x). if j = i then (j, p) else (j, x)) (programs d)\<rparr>))"

section \<open>Lesson and program methods\<close>

text \<open>\<^verbatim>\<open>lessonSchema.methods.validateAssets\<close>, with the message it builds left as the list it joins.\<close>

record asset_validation =
  isValid :: bool
  missingVariants :: "variant list"

definition requiredVariants :: "variant list" where
  "requiredVariants = [Portrait, Landscape]"

definition validateAssets :: "db \<Rightarrow> objectId \<Rightarrow> lesson \<Rightarrow> asset_validation" where
  "validateAssets d i l =
     (let assets = filter (\<lambda>a. lessonId a = i \<and> language a = contentLanguagePrimary l
                                \<and> assetType a = Thumbnail) (lessonAssets d);
          availableVariants = map variant assets;
          missing = filter (\<lambda>v. v \<notin> set availableVariants) requiredVariants
      in \<lparr>isValid = (length missing = 0), missingVariants = missing\<rparr>)"

text \<open>\<^verbatim>\<open>programSchema.methods.autoPublish\<close>; \<open>now\<close> is the clock read by \<^verbatim>\<open>new Date()\<close>.\<close>

definition autoPublish :: "faults \<Rightarrow> date \<Rightarrow> db \<Rightarrow> objectId \<Rightarrow> program \<Rightarrow> error + db" where
  "autoPublish fails now d i p =
     (if program.status p = ProgramDraft
      then saveProgram fails d i
             (p\<lparr>program.status := ProgramPublished,
                program.publishedAt :=
                  (case program.publishedAt p of Some t \<Rightarrow> Some t | None \<Rightarrow> Some now)\<rparr>)
      else Inr d)"

text \<open>
  \<^verbatim>\<open>lessonSchema.methods.publish\<close> on the document \<open>l\<close> loaded under \<^verbatim>\<open>_id\<close> \<open>i\<close>, in
  the backend process, where every model is registered. The result is what the promise
  settles to (\<open>Inl\<close> the rejection) and the database as the call leaves it. \<open>now\<close> is
  the clock at the lesson's assignment, \<open>stamp\<close> the clock at its save, \<open>later\<close> the clock
  inside \<^verbatim>\<open>autoPublish\<close>.
\<close>

definition publish :: "faults \<Rightarrow> date \<Rightarrow> date \<Rightarrow> date \<Rightarrow> db \<Rightarrow> objectId \<Rightarrow> lesson \<Rightarrow> (error + lesson) \<times> db" where
  "publish fails now stamp later d i l =
     (let assetValidation = validateAssets d i l in
      if \<not> isValid assetValidation
      then (Inl (AssetsIncomplete (missingVariants assetValidation)), d)
      else
        let l' = l\<lparr>status := Published, publishedAt := Some now, publishAt := None\<rparr> in
        case saveLesson fails stamp d i l l' of
          Inl e \<Rightarrow> (Inl e, d)
        | Inr (l'', d1) \<Rightarrow>
            (case findTerm d1 (termId l'') of
               None \<Rightarrow> (Inr l'', d1)
             | Some t \<Rightarrow>
                 (case findProgram d1 (programId t) of
                    None \<Rightarrow> (Inr l'', d1)
                  | Some p \<Rightarrow>
                      if program.status p = ProgramDraft
                      then (case autoPublish fails later d1 (programId t) p of
                              Inl e \<Rightarrow> (Inl e, d1)
                            | Inr d2 \<Rightarrow> (Inr l'', d2))
                      else (Inr l'', d1))))"

text \<open>
  \<^verbatim>\<open>lessonSchema.methods.schedule\<close>; the argument is \<open>None\<close> when it is falsy, else
  the time of the date passed. \<open>now\<close> is the clock read by \<^verbatim>\<open>new Date()\<close>, \<open>stamp\<close> the
  clock at the save.
\<close>

definition schedule :: "faults \<Rightarrow> date \<Rightarrow> date \<Rightarrow> db \<Rightarrow> objectId \<Rightarrow> lesson \<Rightarrow> date option \<Rightarrow> (error + lesson) \<times> db" where
  "schedule fails now stamp d i l requested =
     (case requested of
        None \<Rightarrow> (Inl InvalidSchedule, d)
      | Some t \<Rightarrow>
          if t \<le> now then (Inl InvalidSchedule, d)
          else
            let l' = l\<lparr>status := Scheduled, publishAt := Some t, publishedAt := None\<rparr> in
            (case saveLesson fails stamp d i l l' of
               Inl e \<Rightarrow> (Inl e, d)
             | Inr (l'', d1) \<Rightarrow> (Inr l'', d1)))"

text \<open>\<^verbatim>\<open>lessonSchema.methods.archive\<close>; \<open>stamp\<close> is the clock at the save.\<close>

definition archive :: "faults \<Rightarrow> date \<Rightarrow> db \<Rightarrow> objectId \<Rightarrow> lesson \<Rightarrow> (error + lesson) \<times> db" where
  "archive fails stamp d i l =
     (let l' = l\<lparr>status := Archived\<rparr> in
      case saveLesson fails stamp d i l l' of
        Inl e \<Rightarrow> (Inl e, d)
      | Inr (l'', d1) \<Rightarrow> (Inr l'', d1))"

section \<open>Admin controllers\<close>

text \<open>
  \<^verbatim>\<open>publishLesson\<close>, \<^verbatim>\<open>scheduleLesson\<close> and \<^verbatim>\<open>archiveLesson\<close> of the lesson controller:
  load the lesson by id, call the method. The request body's \<^verbatim>\<open>publishAt\<close> is \<open>None\<close>
  when it is absent, else the date it denotes.
\<close>

definition publishLesson :: "faults \<Rightarrow> date \<Rightarrow> date \<Rightarrow> date \<Rightarrow> db \<Rightarrow> objectId \<Rightarrow> (error + lesson) \<times> db" where
  "publishLesson fails now stamp later d i =
     (case findLesson d i of
        None \<Rightarrow> (Inl NotFound, d)
      | Some l \<Rightarrow> publish fails now stamp later d i l)"

definition scheduleLesson :: "faults \<Rightarrow> date \<Rightarrow> date \<Rightarrow> db \<Rightarrow> objectId \<Rightarrow> date option \<Rightarrow> (error + lesson) \<times> db" where
  "scheduleLesson fails now stamp d i body =
     (case body of
        None \<Rightarrow> (Inl ValidationError, d)
      | Some t \<Rightarrow>
          (case findLesson d i of
             None \<Rightarrow> (Inl NotFound, d)
           | Some l \<Rightarrow> schedule fails now stamp d i l (Some t)))"

definition archiveLesson :: "faults \<Rightarrow> date \<Rightarrow> db \<Rightarrow> objectId \<Rightarrow> (error + lesson) \<times> db" where
  "archiveLesson fails stamp d i =
     (case findLesson d i of
        None \<Rightarrow> (Inl NotFound, d)
      | Some l \<Rightarrow> archive fails stamp d i l)"

section \<open>The publishing worker\<close>

text \<open>
  The worker is a process of its own. Its entry file requires the models \<^verbatim>\<open>Lesson\<close>,
  \<^verbatim>\<open>Term\<close> and \<^verbatim>\<open>Program\<close> and nothing else, so these are the models registered in it;
  \<^verbatim>\<open>mongoose.model(name)\<close> of any other name throws. The worker's copy of
  \<^verbatim>\<open>validateAssets\<close> starts with \<^verbatim>\<open>mongoose.model('LessonAsset')\<close>.
\<close>

datatype model_name = LessonModel | TermModel | ProgramModel | LessonAssetModel

definition workerModels :: "model_name list" where
  "workerModels = [LessonModel, TermModel, ProgramModel]"

definition lookupModel :: "model_name list \<Rightarrow> model_name \<Rightarrow> error + unit" where
  "lookupModel registered m = (if m \<in> set registered then Inr () else Inl MissingSchemaError)"

definition workerValidateAssets :: "db \<Rightarrow> objectId \<Rightarrow> lesson \<Rightarrow> error + asset_validation" where
  "workerValidateAssets d i l =
     (case lookupModel workerModels LessonAssetModel of
        Inl e \<Rightarrow> Inl e
      | Inr u \<Rightarrow> Inr (validateAssets d i l))"

text \<open>
  What the callback of \<^verbatim>\<open>session.withTransaction\<close> does for one lesson when it does not
  throw: it publishes the lesson, it returns early because the lesson is gone or no longer
  scheduled, or it returns early because thumbnails are missing.
\<close>

datatype outcome = DuePublished | DueNoOp | DueAssetsIncomplete "variant list"

text \<open>
  The callback, on the lesson id found by the query. \<open>now\<close> is the clock at the lesson's
  assignment, \<open>stamp\<close> the clock at its save, \<open>later\<close> the clock at the program's
  assignment.
\<close>

definition transactionCallback :: "faults \<Rightarrow> date \<Rightarrow> date \<Rightarrow> date \<Rightarrow> objectId \<Rightarrow> db \<Rightarrow> (error + outcome) \<times> db" where
  "transactionCallback fails now stamp later i d =
     (case findLesson d i of
        None \<Rightarrow> (Inr DueNoOp, d)
      | Some currentLesson \<Rightarrow>
          if status currentLesson \<noteq> Scheduled then (Inr DueNoOp, d)
          else
            (case workerValidateAssets d i currentLesson of
               Inl e \<Rightarrow> (Inl e, d)
             | Inr assetValidation \<Rightarrow>
                 if \<not> isValid assetValidation
                 then (Inr (DueAssetsIncomplete (missingVariants assetValidation)), d)
                 else
                   let l' = currentLesson\<lparr>status := Published, publishedAt := Some now,
                                            publishAt := None\<rparr> in
                   (case saveLesson fails stamp d i currentLesson l' of
                      Inl e \<Rightarrow> (Inl e, d)
                    | Inr (l'', d1) \<Rightarrow>
                        (case findTerm d1 (termId l'') of
                           None \<Rightarrow> (Inr DuePublished, d1)
                         | Some t \<Rightarrow>
                             (case findProgram d1 (programId t) of
                                None \<Rightarrow> (Inr DuePublished, d1)
                              | Some p \<Rightarrow>
                                  if program.status p = ProgramDraft
                                  then (case saveProgram fails d1 (programId t)
                                               (p\<lparr>program.status := ProgramPublished,
                                                  program.publishedAt :=
                                                    (case program.publishedAt p of
                                                       Some t' \<Rightarrow> Some t'
                                                     | None \<Rightarrow> Some later)\<rparr>) of
                                          Inl e \<Rightarrow> (Inl e, d1)
                                        | Inr d2 \<Rightarrow> (Inr DuePublished, d2))
                                  else (Inr DuePublished, d1))))))"

text \<open>
  \<^verbatim>\<open>session.withTransaction\<close>: when the callback throws, its writes are rolled back and
  the error is thrown on.
\<close>

definition withTransaction :: "(db \<Rightarrow> (error + 'a) \<times> db) \<Rightarrow> db \<Rightarrow> (error + 'a) \<times> db" where
  "withTransaction callback d =
     (case callback d of
        (Inl e, d') \<Rightarrow> (Inl e, d)
      | (Inr x, d') \<Rightarrow> (Inr x, d'))"

text \<open>
  The counters of a run and what it logs for each lesson (an \<open>Inl\<close> entry is the
  \<^verbatim>\<open>catch\<close> of the loop body).
\<close>

record report =
  totalFound :: nat
  processed :: nat
  errors :: nat
  logged :: "(objectId \<times> (error + outcome)) list"

text \<open>
  The body of the \<^verbatim>\<open>for\<close> loop for the lesson with id \<open>i\<close>; \<open>clock i\<close> gives the three
  clock readings of its transaction.
\<close>

definition processLesson :: "faults \<Rightarrow> (objectId \<Rightarrow> date \<times> date \<times> date) \<Rightarrow> objectId \<Rightarrow> db \<times> report \<Rightarrow> db \<times> report" where
  "processLesson fails clock i s =
     (case s of (d, r) \<Rightarrow>
        (case clock i of (now, stamp, later) \<Rightarrow>
           (case withTransaction (transactionCallback fails now stamp later i) d of
              (Inr DuePublished, d') \<Rightarrow>
                (d', r\<lparr>processed := processed r + 1,
                       logged := logged r @ [(i, Inr DuePublished)]\<rparr>)
            | (Inr DueNoOp, d') \<Rightarrow>
                (d', r\<lparr>logged := logged r @ [(i, Inr DueNoOp)]\<rparr>)
            | (Inr (DueAssetsIncomplete m), d') \<Rightarrow>
                (d', r\<lparr>errors := errors r + 1,
                       logged := logged r @ [(i, Inr (DueAssetsIncomplete m))]\<rparr>)
            | (Inl e, d') \<Rightarrow>
                (d', r\<lparr>errors := errors r + 1, logged := logged r @ [(i, Inl e)]\<rparr>))))"

text \<open>
  The query of the run: the lessons with status \<^verbatim>\<open>scheduled\<close> whose \<^verbatim>\<open>publishAt\<close> is
  at most \<open>now\<close>, sorted by \<^verbatim>\<open>publishAt\<close> ascending.
\<close>

definition isDue :: "date \<Rightarrow> lesson \<Rightarrow> bool" where
  "isDue now l = (status l = Scheduled \<and> (case publishAt l of None \<Rightarrow> False | Some t \<Rightarrow> t \<le> now))"

definition dueLessons :: "db \<Rightarrow> date \<Rightarrow> (objectId \<times> lesson) list" where
  "dueLessons d now =
     sort_key (\<lambda>(i, l). case publishAt l of None \<Rightarrow> 0 | Some t \<Rightarrow> t)
       (filter (\<lambda>(i, l). isDue now l) (lessons d))"

text \<open>\<^verbatim>\<open>processScheduledLessons\<close>: the database after the run and the summary it logs.\<close>

definition processScheduledLessons :: "faults \<Rightarrow> date \<Rightarrow> (objectId \<Rightarrow> date \<times> date \<times> date) \<Rightarrow> db \<Rightarrow> db \<times> report" where
  "processScheduledLessons fails now clock d =
     (let scheduledLessons = dueLessons d now in
      fold (\<lambda>(i, l). processLesson fails clock i) scheduledLessons
        (d, \<lparr>totalFound = length scheduledLessons, processed = 0, errors = 0, logged = []\<rparr>))"

section \<open>Sequences of lifecycle operations\<close>

text \<open>
  An admin request or a run of the worker, each with the clock readings it makes; a
  history is a list of them, each under the storage faults of its moment.
\<close>

datatype operation =
    PublishNow objectId date date date
  | Schedule objectId "date option" date date
  | Archive objectId date
  | WorkerRun date "objectId \<Rightarrow> date \<times> date \<times> date"

fun applyOperation :: "db \<Rightarrow> faults \<times> operation \<Rightarrow> db" where
  "applyOperation d (fails, PublishNow i now stamp later)
     = snd (publishLesson fails now stamp later d i)"
| "applyOperation d (fails, Schedule i body now stamp) = snd (scheduleLesson fails now stamp d i body)"
| "applyOperation d (fails, Archive i stamp) = snd (archiveLesson fails stamp d i)"
| "applyOperation d (fails, WorkerRun now clock) = fst (processScheduledLessons fails now clock d)"

definition run :: "db \<Rightarrow> (faults \<times> operation) list \<Rightarrow> db" where
  "run d ops = foldl applyOperation d ops"

section \<open>Predicates of the properties\<close>

text \<open>
  A thumbnail of variant \<open>v\<close> is stored for lesson \<open>i\<close> in the primary content language
  of the document \<open>l\<close>.
\<close>

definition hasThumbnail :: "db \<Rightarrow> objectId \<Rightarrow> lesson \<Rightarrow> variant \<Rightarrow> bool" where
  "hasThumbnail d i l v =
     (\<exists>a \<in> set (lessonAssets d). lessonId a = i \<and> language a = contentLanguagePrimary l
         \<and> assetType a = Thumbnail \<and> variant a = v)"

text \<open>
  The relation between a lesson's status and its two dates that the lifecycle operations
  keep: outside the archive, a lesson is scheduled exactly when it has a due time and
  published exactly when it has a publication time.
\<close>

definition lifecycleInvariant :: "lesson \<Rightarrow> bool" where
  "lifecycleInvariant l =
     (status l \<noteq> Archived \<longrightarrow>
        (status l = Scheduled \<longleftrightarrow> publishAt l \<noteq> None)
      \<and> (status l = Published \<longleftrightarrow> publishedAt l \<noteq> None))"

definition allLessons :: "(lesson \<Rightarrow> bool) \<Rightarrow> db \<Rightarrow> bool" where
  "allLessons P d = (\<forall>(i, l) \<in> set (lessons d). P l)"

section \<open>Example data\<close>

text \<open>
  A draft program with one term and two draft lessons in English. Lesson 31 has both
  required thumbnails, lesson 32 has the portrait one only.
\<close>

definition exampleProgram :: program where
  "exampleProgram =
     \<lparr>program.title = ''Algebra'', description = None, youtubeUrl = None, youtubeVideoId = None,
      thumbnail = ''https://images.example/default'', customThumbnail = False,
      languagePrimary = ''en'', languagesAvailable = [''en''], program.status = ProgramDraft,
      program.publishedAt = None, topicIds = [], difficulty = Beginner, duration = None,
      price = 0, tags = []\<rparr>"

definition exampleTerm :: "term" where
  "exampleTerm = \<lparr>programId = 20, termNumber = 1, term.title = None\<rparr>"

definition exampleLesson :: lesson where
  "exampleLesson =
     \<lparr>termId = 10, lessonNumber = 1, title = ''Intro'', contentType = Video,
      durationMs = Some 60000, isPaid = False, contentLanguagePrimary = ''en'',
      contentLanguagesAvailable = [''en''], contentUrlsByLanguage = [(''en'', ''https://cdn.example/1'')],
      subtitleLanguages = [], subtitleUrlsByLanguage = [], status = Draft,
      publishAt = None, publishedAt = None, createdAt = 2, updatedAt = 2\<rparr>"

definition exampleAsset :: "objectId \<Rightarrow> variant \<Rightarrow> lesson_asset" where
  "exampleAsset i v =
     \<lparr>lessonId = i, language = ''en'', variant = v, assetType = Thumbnail,
      url = ''https://cdn.example/thumb''\<rparr>"

definition exampleDb :: db where
  "exampleDb =
     \<lparr>lessons = [(31, exampleLesson), (32, exampleLesson\<lparr>lessonNumber := 2\<rparr>)],
      terms = [(10, exampleTerm)],
      programs = [(20, exampleProgram)],
      lessonAssets = [exampleAsset 31 Portrait, exampleAsset 31 Landscape, exampleAsset 32 Portrait]\<rparr>"

text \<open>The same database with lesson 31 due at 50 and lesson 32 due at 40.\<close>

definition scheduledDb :: db where
  "scheduledDb =
     exampleDb\<lparr>lessons :=
       [(31, exampleLesson\<lparr>status := Scheduled, publishAt := Some 50\<rparr>),
        (32, exampleLesson\<lparr>lessonNumber := 2, status := Scheduled, publishAt := Some 40\<rparr>)]\<rparr>"

text \<open>The example database with the program already published at time 7.\<close>

definition publishedDb :: db where
  "publishedDb =
     exampleDb\<lparr>programs :=
       [(20, exampleProgram\<lparr>program.status := ProgramPublished,
                             program.publishedAt := Some 7\<rparr>)]\<rparr>"

text \<open>The same database with lesson 31 archived.\<close>

definition archivedDb :: db where
  "archivedDb = exampleDb\<lparr>lessons := [(31, exampleLesson\<lparr>status := Archived\<rparr>)]\<rparr>"

definition noFaults :: faults where
  "noFaults w = False"


definition emptyReport :: report where
  "emptyReport = \<lparr>totalFound = 0, processed = 0, errors = 0, logged = []\<rparr>"

definition exampleClock :: "objectId \<Rightarrow> date \<times> date \<times> date" where
  "exampleClock i = (100, 101, 102)"

section \<open>Facts about the storage operations\<close>

lemma availableVariants_iff:
  "v \<in> set (map variant (filter (\<lambda>a. lessonId a = i \<and> language a = contentLanguagePrimary l
                                \<and> assetType a = Thumbnail) (lessonAssets d)))
     \<longleftrightarrow> hasThumbnail d i l v"
  unfolding hasThumbnail_def by force

lemma missingVariants_validateAssets:
  "missingVariants (validateAssets d i l)
     = filter (\<lambda>v. \<not> hasThumbnail d i l v) [Portrait, Landscape]"
  unfolding validateAssets_def requiredVariants_def Let_def
  by (simp only: availableVariants_iff asset_validation.simps)

lemma isValid_validateAssets:
  "isValid (validateAssets d i l) = (hasThumbnail d i l Portrait \<and> hasThumbnail d i l Landscape)"
  unfolding validateAssets_def requiredVariants_def Let_def
  by (simp only: availableVariants_iff asset_validation.simps) simp

lemma map_of_replace:
  "map_of (map (\<lambda>(j, x). if j = i then (j, v) else (j, x)) xs) k
     = (if k = i then (case map_of xs i of None \<Rightarrow> None | Some _ \<Rightarrow> Some v) else map_of xs k)"
  by (induction xs) (auto split: option.splits)

lemma saveProgram_Inr:
  "saveProgram fails d i p = Inr d1 \<Longrightarrow>
     findProgram d1 j = (if j = i then Some p else findProgram d j) \<and> terms d1 = terms d
     \<and> lessons d1 = lessons d \<and> lessonAssets d1 = lessonAssets d"
  by (auto simp: saveProgram_def findProgram_def map_of_replace split: if_splits option.splits)

lemma saveProgram_ok:
  "\<not> fails (WriteProgram i) \<Longrightarrow> findProgram d i \<noteq> None \<Longrightarrow> \<exists>d1. saveProgram fails d i p = Inr d1"
  by (auto simp: saveProgram_def)


lemma saveProgram_lessons:
  "saveProgram fails d i p = Inr d1 \<Longrightarrow> lessons d1 = lessons d"
  by (auto simp: saveProgram_def split: if_splits)


lemma validatesOnSave_holds: "validatesOnSave l"
  by (auto simp: validatesOnSave_def validatePublishAt_def validatePublishedAt_def)

lemma map_of_storeAt:
  "map_of (storeAt i v xs) k
     = (if k = i then (case map_of xs i of None \<Rightarrow> None | Some _ \<Rightarrow> Some v) else map_of xs k)"
  by (induction xs) (auto split: option.splits)

lemma set_storeAt:
  "(j, x) \<in> set (storeAt i v xs) \<Longrightarrow> (j = i \<and> x = v) \<or> (j, x) \<in> set xs"
  by (induction xs) (auto split: if_splits)

lemma timestampsPreSave_sel:
  "status (timestampsPreSave stamp loaded l) = status l"
  "publishAt (timestampsPreSave stamp loaded l) = publishAt l"
  "publishedAt (timestampsPreSave stamp loaded l) = publishedAt l"
  "termId (timestampsPreSave stamp loaded l) = termId l"
  "contentLanguagePrimary (timestampsPreSave stamp loaded l) = contentLanguagePrimary l"
  by (simp_all add: timestampsPreSave_def)

lemma saveLesson_Inr:
  assumes "saveLesson fails stamp d i loaded l = Inr (l', d1)"
  shows "l' = timestampsPreSave stamp loaded l
         \<and> terms d1 = terms d \<and> programs d1 = programs d \<and> lessonAssets d1 = lessonAssets d
         \<and> (\<forall>j. j \<noteq> i \<longrightarrow> findLesson d1 j = findLesson d j)
         \<and> (\<exists>stored. findLesson d i = Some stored
               \<and> lessons d1 = (if isModified loaded l
                                then storeAt i (writeModified loaded l' stored) (lessons d)
                                else lessons d)
               \<and> findLesson d1 i
                   = Some (if isModified loaded l then writeModified loaded l' stored else stored))"
  using assms
  by (auto simp: saveLesson_def Let_def findLesson_def map_of_storeAt
        split: if_splits option.splits)

lemma saveLesson_ok:
  assumes "findLesson d i = Some stored" and "isModified loaded l \<longrightarrow> \<not> fails (WriteLesson i)"
  shows "\<exists>d1. saveLesson fails stamp d i loaded l = Inr (timestampsPreSave stamp loaded l, d1)"
  using assms by (auto simp: saveLesson_def Let_def validatesOnSave_holds)

text \<open>
  Saving a document that was loaded as it is stored leaves the stored document equal to
  the one in memory.
\<close>

lemma writeModified_fresh:
  "writeModified l (timestampsPreSave stamp l (l\<lparr>status := s, publishAt := a, publishedAt := b\<rparr>)) l
     = timestampsPreSave stamp l (l\<lparr>status := s, publishAt := a, publishedAt := b\<rparr>)"
  by (simp add: writeModified_def timestampsPreSave_def isModified_def)

lemma unmodified_fresh:
  "\<not> isModified l (l\<lparr>status := s, publishAt := a, publishedAt := b\<rparr>)
     \<Longrightarrow> timestampsPreSave stamp l (l\<lparr>status := s, publishAt := a, publishedAt := b\<rparr>) = l"
  by (simp add: timestampsPreSave_def isModified_def)

lemma saveLesson_fresh:
  assumes "findLesson d i = Some l"
    and "saveLesson fails stamp d i l m = Inr (l', d1)"
    and m: "m = l\<lparr>status := s, publishAt := a, publishedAt := b\<rparr>"
  shows "l' = timestampsPreSave stamp l m
         \<and> findLesson d1 i = Some l'
         \<and> (\<forall>j. j \<noteq> i \<longrightarrow> findLesson d1 j = findLesson d j)
         \<and> terms d1 = terms d \<and> programs d1 = programs d \<and> lessonAssets d1 = lessonAssets d
         \<and> (\<forall>j x. (j, x) \<in> set (lessons d1) \<longrightarrow> (j = i \<and> x = l') \<or> (j, x) \<in> set (lessons d))"
proof -
  let ?m = "l\<lparr>status := s, publishAt := a, publishedAt := b\<rparr>"
  from saveLesson_Inr [OF assms(2)] assms(1) m
  have l': "l' = timestampsPreSave stamp l ?m"
    and frame: "terms d1 = terms d" "programs d1 = programs d" "lessonAssets d1 = lessonAssets d"
      "\<forall>j. j \<noteq> i \<longrightarrow> findLesson d1 j = findLesson d j"
    and ls: "lessons d1 = (if isModified l ?m then storeAt i (writeModified l l' l) (lessons d)
                          else lessons d)"
    and f: "findLesson d1 i = Some (if isModified l ?m then writeModified l l' l else l)"
    by auto
  have w: "(if isModified l ?m then writeModified l l' l else l) = l'"
    using writeModified_fresh [where l = l and stamp = stamp and s = s and a = a and b = b]
      unmodified_fresh [where l = l and stamp = stamp and s = s and a = a and b = b]
    unfolding l' by auto
  have "(j, x) \<in> set (lessons d1) \<Longrightarrow> (j = i \<and> x = l') \<or> (j, x) \<in> set (lessons d)" for j x
    using ls w set_storeAt [of j x i "writeModified l l' l" "lessons d"]
    by (cases "isModified l ?m") auto
  with l' f w frame m show ?thesis by auto
qed

text \<open>What \<^verbatim>\<open>publish\<close> does once the lesson is saved: the cascade to the parent program.\<close>

lemma publish_saved:
  assumes "hasThumbnail d i l Portrait" "hasThumbnail d i l Landscape"
    and "saveLesson fails stamp d i l
           (l\<lparr>status := Published, publishedAt := Some now, publishAt := None\<rparr>) = Inr (l', d1)"
  shows "publish fails now stamp later d i l =
     (case findTerm d (termId l) of
        None \<Rightarrow> (Inr l', d1)
      | Some t \<Rightarrow>
         (case findProgram d (programId t) of
            None \<Rightarrow> (Inr l', d1)
          | Some p \<Rightarrow>
              if program.status p = ProgramDraft
              then (case saveProgram fails d1 (programId t)
                           (p\<lparr>program.status := ProgramPublished,
                              program.publishedAt :=
                                (case program.publishedAt p of Some x \<Rightarrow> Some x | None \<Rightarrow> Some later)\<rparr>) of
                      Inl e \<Rightarrow> (Inl e, d1)
                    | Inr d2 \<Rightarrow> (Inr l', d2))
              else (Inr l', d1)))"
proof -
  from saveLesson_Inr [OF assms(3)]
  have t: "findTerm d1 = findTerm d" and p: "findProgram d1 = findProgram d"
    and l': "termId l' = termId l"
    by (auto simp: findTerm_def findProgram_def timestampsPreSave_sel)
  show ?thesis
    using assms
    by (simp add: publish_def Let_def isValid_validateAssets t p l' autoPublish_def
          split: option.splits sum.splits)
qed

lemma publish_unsaved:
  assumes "saveLesson fails stamp d i l
             (l\<lparr>status := Published, publishedAt := Some now, publishAt := None\<rparr>) = Inl e"
  shows "snd (publish fails now stamp later d i l) = d"
  using assms by (simp add: publish_def Let_def)

lemma publish_invalid:
  "\<not> (hasThumbnail d i l Portrait \<and> hasThumbnail d i l Landscape)
     \<Longrightarrow> snd (publish fails now stamp later d i l) = d"
  by (simp add: publish_def Let_def isValid_validateAssets)

text \<open>The lessons, terms, programs and assets after \<^verbatim>\<open>publish\<close> once the lesson is saved.\<close>

lemma publish_saved_db:
  assumes "hasThumbnail d i l Portrait" "hasThumbnail d i l Landscape"
    and "saveLesson fails stamp d i l
           (l\<lparr>status := Published, publishedAt := Some now, publishAt := None\<rparr>) = Inr (l', d1)"
  shows "lessons (snd (publish fails now stamp later d i l)) = lessons d1
         \<and> lessonAssets (snd (publish fails now stamp later d i l)) = lessonAssets d1"
proof -
  have "\<And>q y d2. saveProgram fails d1 q y = Inr d2
          \<Longrightarrow> lessons d2 = lessons d1 \<and> lessonAssets d2 = lessonAssets d1"
    using saveProgram_Inr by blast
  then show ?thesis
    unfolding publish_saved [OF assms]
    by (simp split: option.splits sum.splits)
qed

text \<open>The stored lesson after \<^verbatim>\<open>publish\<close>, for any loaded document.\<close>

lemma writeModified_unmodified:
  "\<not> isModified loaded l \<Longrightarrow> updatedAt l = updatedAt loaded
     \<Longrightarrow> writeModified loaded (timestampsPreSave stamp loaded l) stored = stored"
  by (simp add: writeModified_def timestampsPreSave_def isModified_def)

lemma publish_stored:
  assumes "hasThumbnail d i l Portrait" "hasThumbnail d i l Landscape"
    and "findLesson d i = Some stored" and "\<not> fails (WriteLesson i)"
  shows "findLesson (snd (publish fails now stamp later d i l)) i
           = Some (writeModified l
                     (timestampsPreSave stamp l
                        (l\<lparr>status := Published, publishedAt := Some now, publishAt := None\<rparr>))
                     stored)"
proof -
  let ?p = "l\<lparr>status := Published, publishedAt := Some now, publishAt := None\<rparr>"
  obtain d1 where s: "saveLesson fails stamp d i l ?p = Inr (timestampsPreSave stamp l ?p, d1)"
    using saveLesson_ok [of d i stored l ?p fails stamp] assms(3,4) by blast
  from saveLesson_Inr [OF s] assms(3)
  have "findLesson d1 i = Some (if isModified l ?p
                                then writeModified l (timestampsPreSave stamp l ?p) stored
                                else stored)"
    by auto
  then have "findLesson d1 i = Some (writeModified l (timestampsPreSave stamp l ?p) stored)"
    by (simp add: writeModified_unmodified)
  then show ?thesis
    using publish_saved_db [OF assms(1,2) s, of later] by (simp add: findLesson_def)
qed

lemma publish_fresh_stored:
  assumes "hasThumbnail d i l Portrait" "hasThumbnail d i l Landscape"
    and "findLesson d i = Some l" and "\<not> fails (WriteLesson i)"
  shows "findLesson (snd (publish fails now stamp later d i l)) i
           = Some (timestampsPreSave stamp l
                     (l\<lparr>status := Published, publishedAt := Some now, publishAt := None\<rparr>))"
proof -
  let ?p = "l\<lparr>status := Published, publishedAt := Some now, publishAt := None\<rparr>"
  obtain d1 where s: "saveLesson fails stamp d i l ?p = Inr (timestampsPreSave stamp l ?p, d1)"
    using saveLesson_ok [of d i l l ?p fails stamp] assms(3,4) by blast
  have "?p = l\<lparr>status := Published, publishAt := None, publishedAt := Some now\<rparr>"
    by simp
  from saveLesson_fresh [OF assms(3) s this]
  have "findLesson d1 i = Some (timestampsPreSave stamp l ?p)" by blast
  then show ?thesis
    using publish_saved_db [OF assms(1,2) s, of later] by (simp add: findLesson_def)
qed

lemma publish_returns:
  assumes "hasThumbnail d i l Portrait" "hasThumbnail d i l Landscape"
    and "findLesson d i = Some stored" and "\<not> fails (WriteLesson i)"
    and "\<forall>q. \<not> fails (WriteProgram q)"
  shows "fst (publish fails now stamp later d i l)
           = Inr (timestampsPreSave stamp l
                    (l\<lparr>status := Published, publishedAt := Some now, publishAt := None\<rparr>))"
proof -
  let ?p = "l\<lparr>status := Published, publishedAt := Some now, publishAt := None\<rparr>"
  obtain d1 where s: "saveLesson fails stamp d i l ?p = Inr (timestampsPreSave stamp l ?p, d1)"
    using saveLesson_ok [of d i stored l ?p fails stamp] assms(3,4) by blast
  have p: "findProgram d1 = findProgram d"
    using saveLesson_Inr [OF s] by (auto simp: findProgram_def)
  show ?thesis
  proof (cases "findTerm d (termId l)")
    case None
    then show ?thesis unfolding publish_saved [OF assms(1,2) s] by simp
  next
    case (Some t)
    note t = this
    show ?thesis
    proof (cases "findProgram d (programId t)")
      case None
      with t show ?thesis unfolding publish_saved [OF assms(1,2) s] by simp
    next
      case (Some x)
      then have "\<And>y. \<exists>d2. saveProgram fails d1 (programId t) y = Inr d2"
        using assms(5) p by (simp add: saveProgram_def)
      then obtain d2 where "saveProgram fails d1 (programId t)
           (x\<lparr>program.status := ProgramPublished,
              program.publishedAt :=
                (case program.publishedAt x of Some x \<Rightarrow> Some x | None \<Rightarrow> Some later)\<rparr>) = Inr d2"
        by blast
      with t Some show ?thesis unfolding publish_saved [OF assms(1,2) s] by simp
    qed
  qed
qed

text \<open>The lessons that \<^verbatim>\<open>publish\<close> leaves in the collection, for a document loaded as stored.\<close>

lemma publish_set:
  assumes "findLesson d i = Some l"
    and "(j, x) \<in> set (lessons (snd (publish fails now stamp later d i l)))"
  shows "(j = i \<and> x = timestampsPreSave stamp l
                        (l\<lparr>status := Published, publishedAt := Some now, publishAt := None\<rparr>))
         \<or> (j, x) \<in> set (lessons d)"
proof (cases "hasThumbnail d i l Portrait \<and> hasThumbnail d i l Landscape")
  case False
  with assms(2) publish_invalid [of d i l fails now stamp later] show ?thesis by simp
next
  case True
  let ?p = "l\<lparr>status := Published, publishedAt := Some now, publishAt := None\<rparr>"
  show ?thesis
  proof (cases "saveLesson fails stamp d i l ?p")
    case (Inl e)
    with assms(2) publish_unsaved [OF Inl, of later] show ?thesis by simp
  next
    case (Inr r)
    obtain l' d1 where r: "r = (l', d1)" by (cases r)
    have s: "saveLesson fails stamp d i l ?p = Inr (l', d1)"
      using Inr r by simp
    have "?p = l\<lparr>status := Published, publishAt := None, publishedAt := Some now\<rparr>"
      by simp
    from saveLesson_fresh [OF assms(1) s this]
    have l': "l' = timestampsPreSave stamp l ?p"
      and st: "\<forall>j x. (j, x) \<in> set (lessons d1) \<longrightarrow> (j = i \<and> x = l') \<or> (j, x) \<in> set (lessons d)"
      by blast+
    from True have h: "hasThumbnail d i l Portrait" "hasThumbnail d i l Landscape" by simp_all
    from publish_saved_db [OF h s, of later] assms(2)
    have "(j, x) \<in> set (lessons d1)" by simp
    with st l' show ?thesis by blast
  qed
qed

section \<open>Facts about scheduling and archiving\<close>

lemma schedule_rejected:
  "t \<le> now \<Longrightarrow> schedule fails now stamp d i l (Some t) = (Inl InvalidSchedule, d)"
  by (simp add: schedule_def)

lemma schedule_success:
  assumes "now < t" "findLesson d i = Some l" "\<not> fails (WriteLesson i)"
  shows "\<exists>d'. schedule fails now stamp d i l (Some t)
                 = (Inr (timestampsPreSave stamp l
                           (l\<lparr>status := Scheduled, publishAt := Some t, publishedAt := None\<rparr>)), d')
            \<and> findLesson d' i
                 = Some (timestampsPreSave stamp l
                           (l\<lparr>status := Scheduled, publishAt := Some t, publishedAt := None\<rparr>))
            \<and> (\<forall>j. j \<noteq> i \<longrightarrow> findLesson d' j = findLesson d j)
            \<and> terms d' = terms d \<and> programs d' = programs d \<and> lessonAssets d' = lessonAssets d"
proof -
  let ?m = "l\<lparr>status := Scheduled, publishAt := Some t, publishedAt := None\<rparr>"
  obtain d1 where s: "saveLesson fails stamp d i l ?m = Inr (timestampsPreSave stamp l ?m, d1)"
    using saveLesson_ok [of d i l l ?m fails stamp] assms(2,3) by blast
  from saveLesson_fresh [OF assms(2) s refl] assms(1) s show ?thesis
    by (simp add: schedule_def Let_def)
qed

lemma archive_success:
  assumes "findLesson d i = Some l" "\<not> fails (WriteLesson i)"
  shows "\<exists>d'. archive fails stamp d i l
                 = (Inr (timestampsPreSave stamp l (l\<lparr>status := Archived\<rparr>)), d')
            \<and> findLesson d' i = Some (timestampsPreSave stamp l (l\<lparr>status := Archived\<rparr>))
            \<and> (\<forall>j. j \<noteq> i \<longrightarrow> findLesson d' j = findLesson d j)
            \<and> terms d' = terms d \<and> programs d' = programs d \<and> lessonAssets d' = lessonAssets d"
proof -
  let ?m = "l\<lparr>status := Archived\<rparr>"
  obtain d1 where s: "saveLesson fails stamp d i l ?m = Inr (timestampsPreSave stamp l ?m, d1)"
    using saveLesson_ok [of d i l l ?m fails stamp] assms by blast
  have "?m = l\<lparr>status := Archived, publishAt := publishAt l, publishedAt := publishedAt l\<rparr>"
    by simp
  from saveLesson_fresh [OF assms(1) s this] s show ?thesis
    by (simp add: archive_def Let_def)
qed

section \<open>Facts about the worker\<close>

lemma workerValidateAssets_throws: "workerValidateAssets d i l = Inl MissingSchemaError"
  by (simp add: workerValidateAssets_def lookupModel_def workerModels_def)

lemma transactionCallback_noop:
  "findLesson d i = None \<or> (\<exists>cur. findLesson d i = Some cur \<and> status cur \<noteq> Scheduled)
     \<Longrightarrow> transactionCallback fails now stamp later i d = (Inr DueNoOp, d)"
  by (auto simp: transactionCallback_def)

lemma transactionCallback_scheduled:
  "findLesson d i = Some cur \<Longrightarrow> status cur = Scheduled
     \<Longrightarrow> transactionCallback fails now stamp later i d = (Inl MissingSchemaError, d)"
  by (simp add: transactionCallback_def workerValidateAssets_throws)

lemma withTransaction_simps:
  "callback d = (Inl e, d') \<Longrightarrow> withTransaction callback d = (Inl e, d)"
  "callback d = (Inr x, d') \<Longrightarrow> withTransaction callback d = (Inr x, d')"
  by (simp_all add: withTransaction_def)

lemma processLesson_noop:
  assumes "findLesson d i = None \<or> (\<exists>cur. findLesson d i = Some cur \<and> status cur \<noteq> Scheduled)"
  shows "processLesson fails clock i (d, r) = (d, r\<lparr>logged := logged r @ [(i, Inr DueNoOp)]\<rparr>)"
proof -
  obtain now stamp later where c: "clock i = (now, stamp, later)" by (cases "clock i")
  have "withTransaction (transactionCallback fails now stamp later i) d = (Inr DueNoOp, d)"
    using transactionCallback_noop [OF assms, of fails now stamp later]
    by (rule withTransaction_simps)
  then show ?thesis by (simp add: processLesson_def c)
qed

lemma processLesson_scheduled:
  assumes "findLesson d i = Some cur" and "status cur = Scheduled"
  shows "processLesson fails clock i (d, r)
           = (d, r\<lparr>errors := errors r + 1, logged := logged r @ [(i, Inl MissingSchemaError)]\<rparr>)"
proof -
  obtain now stamp later where c: "clock i = (now, stamp, later)" by (cases "clock i")
  have "withTransaction (transactionCallback fails now stamp later i) d = (Inl MissingSchemaError, d)"
    using transactionCallback_scheduled [OF assms, of fails now stamp later]
    by (rule withTransaction_simps)
  then show ?thesis by (simp add: processLesson_def c)
qed

text \<open>No step of the worker, and so no run, changes the database.\<close>

lemma processLesson_db: "fst (processLesson fails clock i (d, r)) = d"
proof (cases "findLesson d i")
  case None
  then show ?thesis using processLesson_noop [of d i fails clock r] by simp
next
  case (Some cur)
  then show ?thesis
    using processLesson_noop [of d i fails clock r] processLesson_scheduled [of d i cur fails clock r]
    by (cases "status cur = Scheduled") auto
qed

lemma fold_processLesson_db:
  "fst (fold (\<lambda>(j, x). processLesson fails clock j) xs (d, r)) = d"
proof (induction xs arbitrary: r)
  case Nil
  show ?case by simp
next
  case (Cons a xs)
  obtain j x where a: "a = (j, x)" by (cases a)
  obtain r1 where s: "processLesson fails clock j (d, r) = (d, r1)"
    using processLesson_db [of fails clock j d r]
    by (cases "processLesson fails clock j (d, r)") simp
  show ?case using Cons.IH [of r1] by (simp add: a s)
qed

lemma processScheduledLessons_db: "fst (processScheduledLessons fails now clock d) = d"
  by (simp add: processScheduledLessons_def Let_def fold_processLesson_db)

lemma set_dueLessons:
  "set (dueLessons d now) = {(i, l). (i, l) \<in> set (lessons d) \<and> isDue now l}"
  by (auto simp: dueLessons_def)

section \<open>Facts about the example data\<close>

lemma hasThumbnail_language:
  "contentLanguagePrimary l' = contentLanguagePrimary l
     \<Longrightarrow> hasThumbnail d i l' v = hasThumbnail d i l v"
  by (simp add: hasThumbnail_def)

lemma hasThumbnail_cong:
  "lessonAssets d' = lessonAssets d \<Longrightarrow> hasThumbnail d' i l v = hasThumbnail d i l v"
  by (simp add: hasThumbnail_def)

lemma exampleLesson_sel:
  "termId exampleLesson = 10" "contentLanguagePrimary exampleLesson = ''en''"
  "status exampleLesson = Draft" "publishAt exampleLesson = None"
  "publishedAt exampleLesson = None" "updatedAt exampleLesson = 2"
  by (simp_all add: exampleLesson_def)

lemma lessonAssets_examples:
  "lessonAssets scheduledDb = lessonAssets exampleDb"
  "lessonAssets publishedDb = lessonAssets exampleDb"
  "lessonAssets archivedDb = lessonAssets exampleDb"
  by (simp_all add: scheduledDb_def publishedDb_def archivedDb_def)

lemma hasThumbnail_exampleDb:
  "contentLanguagePrimary l = ''en'' \<Longrightarrow> hasThumbnail exampleDb 31 l v = (v = Portrait \<or> v = Landscape)"
  "contentLanguagePrimary l = ''en'' \<Longrightarrow> hasThumbnail exampleDb 32 l v = (v = Portrait)"
  by (auto simp: hasThumbnail_def exampleDb_def exampleAsset_def)

lemma findLesson_exampleDb:
  "findLesson exampleDb 31 = Some exampleLesson"
  "findLesson exampleDb 32 = Some (exampleLesson\<lparr>lessonNumber := 2\<rparr>)"
  by (simp_all add: findLesson_def exampleDb_def)

lemma findLesson_archivedDb:
  "findLesson archivedDb 31 = Some (exampleLesson\<lparr>status := Archived\<rparr>)"
  by (simp add: findLesson_def archivedDb_def)

lemma findLesson_scheduledDb:
  "findLesson scheduledDb 31 = Some (exampleLesson\<lparr>status := Scheduled, publishAt := Some 50\<rparr>)"
  "findLesson scheduledDb 32
     = Some (exampleLesson\<lparr>lessonNumber := 2, status := Scheduled, publishAt := Some 40\<rparr>)"
  by (simp_all add: findLesson_def scheduledDb_def)

lemma findLesson_publishedDb:
  "findLesson publishedDb 31 = Some exampleLesson"
  by (simp add: findLesson_def publishedDb_def exampleDb_def)

lemma findTerm_examples:
  "findTerm exampleDb 10 = Some exampleTerm" "findTerm publishedDb 10 = Some exampleTerm"
  "findTerm scheduledDb 10 = Some exampleTerm" "findTerm archivedDb 10 = Some exampleTerm"
  "programId exampleTerm = 20"
  by (simp_all add: findTerm_def exampleDb_def publishedDb_def scheduledDb_def archivedDb_def
        exampleTerm_def)

lemma findProgram_examples:
  "findProgram exampleDb 20 = Some exampleProgram"
  "findProgram scheduledDb 20 = Some exampleProgram"
  "findProgram archivedDb 20 = Some exampleProgram"
  "findProgram publishedDb 20
     = Some (exampleProgram\<lparr>program.status := ProgramPublished, program.publishedAt := Some 7\<rparr>)"
  "program.status exampleProgram = ProgramDraft" "program.publishedAt exampleProgram = None"
  by (simp_all add: findProgram_def exampleDb_def publishedDb_def scheduledDb_def archivedDb_def
        exampleProgram_def)

lemma programs_publishedDb:
  "programs publishedDb
     = [(20, exampleProgram\<lparr>program.status := ProgramPublished, program.publishedAt := Some 7\<rparr>)]"
  by (simp add: publishedDb_def)

lemma noFaults_simp: "\<not> noFaults w"
  by (simp add: noFaults_def)


lemma allLessons_exampleDb: "allLessons lifecycleInvariant exampleDb"
  by (simp add: allLessons_def lifecycleInvariant_def exampleDb_def exampleLesson_def)

lemma thumbnails_31:
  "contentLanguagePrimary l = ''en'' \<Longrightarrow> hasThumbnail exampleDb 31 l Portrait"
  "contentLanguagePrimary l = ''en'' \<Longrightarrow> hasThumbnail exampleDb 31 l Landscape"
  "contentLanguagePrimary l = ''en'' \<Longrightarrow> hasThumbnail archivedDb 31 l Portrait"
  "contentLanguagePrimary l = ''en'' \<Longrightarrow> hasThumbnail archivedDb 31 l Landscape"
  "contentLanguagePrimary l = ''en'' \<Longrightarrow> hasThumbnail scheduledDb 31 l Portrait"
  "contentLanguagePrimary l = ''en'' \<Longrightarrow> hasThumbnail scheduledDb 31 l Landscape"
  by (simp_all add: hasThumbnail_cong [OF lessonAssets_examples(1)]
        hasThumbnail_cong [OF lessonAssets_examples(3)] hasThumbnail_exampleDb)

lemma timestampsPreSave_exampleLesson:
  "timestampsPreSave stamp exampleLesson
     (exampleLesson\<lparr>status := Scheduled, publishAt := Some t, publishedAt := None\<rparr>)
   = exampleLesson\<lparr>status := Scheduled, publishAt := Some t, publishedAt := None, updatedAt := stamp\<rparr>"
  "timestampsPreSave stamp exampleLesson
     (exampleLesson\<lparr>status := Published, publishedAt := Some t, publishAt := None\<rparr>)
   = exampleLesson\<lparr>status := Published, publishedAt := Some t, publishAt := None, updatedAt := stamp\<rparr>"
  by (simp_all add: timestampsPreSave_def isModified_def exampleLesson_sel)

section \<open>Publishing with missing thumbnails\<close>

text \<open>
  C1. When the portrait or the landscape thumbnail of the lesson's primary content
  language is missing at the moment of the call, \<^verbatim>\<open>publish\<close> rejects with the list of
  exactly the missing required variants and writes nothing: the database, and with it the
  lesson's status and every other path, is as before. The same holds for the controller
  on a stored lesson.
\<close>

theorem publish_rejects_incomplete_assets:
  assumes "\<not> hasThumbnail d i l Portrait \<or> \<not> hasThumbnail d i l Landscape"
  shows "publish fails now stamp later d i l
           = (Inl (AssetsIncomplete (filter (\<lambda>v. \<not> hasThumbnail d i l v) [Portrait, Landscape])), d)
         \<and> (findLesson d i = Some l \<longrightarrow>
              publishLesson fails now stamp later d i
                = (Inl (AssetsIncomplete
                          (filter (\<lambda>v. \<not> hasThumbnail d i l v) [Portrait, Landscape])), d))"
  using assms
  by (simp add: publish_def publishLesson_def Let_def isValid_validateAssets
        missingVariants_validateAssets)

theorem publish_rejects_incomplete_assets_witness:
  "\<not> hasThumbnail exampleDb 32 (exampleLesson\<lparr>lessonNumber := 2\<rparr>) Landscape
   \<and> findLesson exampleDb 32 = Some (exampleLesson\<lparr>lessonNumber := 2\<rparr>)
   \<and> publishLesson noFaults 100 101 102 exampleDb 32
       = (Inl (AssetsIncomplete [Landscape]), exampleDb)"
proof -
  have en: "contentLanguagePrimary (exampleLesson\<lparr>lessonNumber := 2\<rparr>) = ''en''"
    by (simp add: exampleLesson_sel)
  have h: "\<not> hasThumbnail exampleDb 32 (exampleLesson\<lparr>lessonNumber := 2\<rparr>) Portrait
      \<or> \<not> hasThumbnail exampleDb 32 (exampleLesson\<lparr>lessonNumber := 2\<rparr>) Landscape"
    by (simp add: hasThumbnail_exampleDb [OF en])
  show ?thesis
    using publish_rejects_incomplete_assets [OF h, of noFaults 100 101 102]
    by (simp add: hasThumbnail_exampleDb [OF en] findLesson_exampleDb)
qed

section \<open>Scheduling\<close>

text \<open>
  C7. A requested due time at or before the current time is rejected with
  \<open>InvalidSchedule\<close> and the database is left as it was, by the method on any loaded
  document and by the controller on a stored lesson. A strictly later due time, on a
  stored lesson whose write the storage accepts, succeeds: the lesson returned and stored
  has status \<open>Scheduled\<close>, that due time, and no \<^verbatim>\<open>publishedAt\<close> (and the \<^verbatim>\<open>updatedAt\<close>
  that the timestamps hook gives it); no other lesson changes.
\<close>

theorem schedule_requires_future:
  "(t \<le> now \<longrightarrow>
      schedule fails now stamp d i l (Some t) = (Inl InvalidSchedule, d)
      \<and> (findLesson d i = Some l \<longrightarrow>
           scheduleLesson fails now stamp d i (Some t) = (Inl InvalidSchedule, d)))
   \<and> (now < t \<and> findLesson d i = Some l \<and> \<not> fails (WriteLesson i) \<longrightarrow>
        (\<exists>d'. scheduleLesson fails now stamp d i (Some t)
                 = (Inr (timestampsPreSave stamp l
                           (l\<lparr>status := Scheduled, publishAt := Some t, publishedAt := None\<rparr>)), d')
            \<and> findLesson d' i
                 = Some (timestampsPreSave stamp l
                           (l\<lparr>status := Scheduled, publishAt := Some t, publishedAt := None\<rparr>))
            \<and> (\<forall>j. j \<noteq> i \<longrightarrow> findLesson d' j = findLesson d j)))"
proof (intro conjI impI)
  assume "t \<le> now"
  then show "schedule fails now stamp d i l (Some t) = (Inl InvalidSchedule, d)"
    by (rule schedule_rejected)
next
  assume "t \<le> now" "findLesson d i = Some l"
  then show "scheduleLesson fails now stamp d i (Some t) = (Inl InvalidSchedule, d)"
    by (simp add: scheduleLesson_def schedule_rejected)
next
  assume a: "now < t \<and> findLesson d i = Some l \<and> \<not> fails (WriteLesson i)"
  then have "scheduleLesson fails now stamp d i (Some t) = schedule fails now stamp d i l (Some t)"
    by (simp add: scheduleLesson_def)
  with schedule_success [of now t d i l fails stamp] a
  show "\<exists>d'. scheduleLesson fails now stamp d i (Some t)
                 = (Inr (timestampsPreSave stamp l
                           (l\<lparr>status := Scheduled, publishAt := Some t, publishedAt := None\<rparr>)), d')
            \<and> findLesson d' i
                 = Some (timestampsPreSave stamp l
                           (l\<lparr>status := Scheduled, publishAt := Some t, publishedAt := None\<rparr>))
            \<and> (\<forall>j. j \<noteq> i \<longrightarrow> findLesson d' j = findLesson d j)"
    by auto
qed

theorem schedule_requires_future_witness:
  "scheduleLesson noFaults 5 6 exampleDb 31 (Some 5) = (Inl InvalidSchedule, exampleDb)
   \<and> (\<exists>d'. scheduleLesson noFaults 5 7 exampleDb 31 (Some 6)
              = (Inr (exampleLesson\<lparr>status := Scheduled, publishAt := Some 6, publishedAt := None,
                                      updatedAt := 7\<rparr>), d')
         \<and> findLesson d' 31
              = Some (exampleLesson\<lparr>status := Scheduled, publishAt := Some 6, publishedAt := None,
                                      updatedAt := 7\<rparr>))"
  using schedule_requires_future [of 5 5 noFaults 6 exampleDb 31 exampleLesson]
    schedule_requires_future [of 6 5 noFaults 7 exampleDb 31 exampleLesson]
  by (auto simp add: findLesson_exampleDb noFaults_simp timestampsPreSave_exampleLesson)

text \<open>
  C9, as the claim states it, fails: the archived lesson 31 of \<open>archivedDb\<close>, scheduled at
  time 5 for the later time 6, is stored with status \<open>Scheduled\<close>.
\<close>

theorem schedule_archived_counterexample:
  "map_option status (findLesson archivedDb 31) = Some Archived
   \<and> map_option status (findLesson (snd (scheduleLesson noFaults 5 7 archivedDb 31 (Some 6))) 31)
       = Some Scheduled"
proof -
  let ?a = "exampleLesson\<lparr>status := Archived\<rparr>"
  let ?s = "timestampsPreSave 7 ?a (?a\<lparr>status := Scheduled, publishAt := Some 6, publishedAt := None\<rparr>)"
  obtain d' where "schedule noFaults 5 7 archivedDb 31 ?a (Some 6) = (Inr ?s, d')"
     "findLesson d' 31 = Some ?s"
    using schedule_success [of 5 6 archivedDb 31 ?a noFaults 7]
    by (auto simp: findLesson_archivedDb noFaults_simp)
  then show ?thesis
    by (simp add: scheduleLesson_def findLesson_archivedDb timestampsPreSave_sel)
qed

text \<open>
  C9, amended. \<^verbatim>\<open>schedule\<close> does not look at the current status: for every archived
  stored lesson and every strictly future due time, when the storage accepts the write,
  the schedule operation stores the lesson with status \<open>Scheduled\<close> and that due time.
\<close>

theorem schedule_from_archived:
  assumes "findLesson d i = Some l" and "status l = Archived" and "now < t"
    and "\<not> fails (WriteLesson i)"
  shows "\<exists>l'. findLesson (snd (scheduleLesson fails now stamp d i (Some t))) i = Some l'
            \<and> status l' = Scheduled \<and> publishAt l' = Some t"
proof -
  have "scheduleLesson fails now stamp d i (Some t) = schedule fails now stamp d i l (Some t)"
    using assms(1) by (simp add: scheduleLesson_def)
  with schedule_success [of now t d i l fails stamp] assms show ?thesis
    by (auto simp: timestampsPreSave_sel)
qed

theorem schedule_from_archived_witness:
  "findLesson archivedDb 31 = Some (exampleLesson\<lparr>status := Archived\<rparr>)
   \<and> (\<exists>l'. findLesson (snd (scheduleLesson noFaults 5 7 archivedDb 31 (Some 6))) 31 = Some l'
            \<and> status l' = Scheduled \<and> publishAt l' = Some 6)"
  using schedule_from_archived [of archivedDb 31 "exampleLesson\<lparr>status := Archived\<rparr>" 5 6 noFaults 7]
  by (simp add: findLesson_archivedDb noFaults_simp)

section \<open>Archiving\<close>

lemma archive_unsaved:
  "saveLesson fails stamp d i l (l\<lparr>status := Archived\<rparr>) = Inl e
     \<Longrightarrow> archive fails stamp d i l = (Inl e, d)"
  by (simp add: archive_def Let_def)

lemma timestampsPreSave_archived:
  "timestampsPreSave stamp l (l\<lparr>status := Archived\<rparr>)
     = l\<lparr>status := Archived, updatedAt := (if status l = Archived then updatedAt l else stamp)\<rparr>"
  by (simp add: timestampsPreSave_def isModified_def)

text \<open>
  C10, as the claim states it, fails: the lesson schema has the \<^verbatim>\<open>timestamps\<close> option,
  so the save of \<^verbatim>\<open>archive\<close> rewrites \<^verbatim>\<open>updatedAt\<close>. Archiving the scheduled lesson 31
  at clock 200 changes its \<^verbatim>\<open>updatedAt\<close> from 2 to 200.
\<close>

theorem archive_updatedAt_counterexample:
  "map_option updatedAt (findLesson scheduledDb 31) = Some 2
   \<and> map_option updatedAt (findLesson (snd (archiveLesson noFaults 200 scheduledDb 31)) 31)
       = Some 200"
proof -
  let ?l = "exampleLesson\<lparr>status := Scheduled, publishAt := Some 50\<rparr>"
  have nf: "\<not> noFaults (WriteLesson 31)" by (rule noFaults_simp)
  obtain d' where "archive noFaults 200 scheduledDb 31 ?l
                     = (Inr (timestampsPreSave 200 ?l (?l\<lparr>status := Archived\<rparr>)), d')"
    and "findLesson d' 31 = Some (timestampsPreSave 200 ?l (?l\<lparr>status := Archived\<rparr>))"
    using archive_success [of scheduledDb 31 ?l noFaults 200] findLesson_scheduledDb(1) nf
    by blast
  then show ?thesis
    by (simp add: archiveLesson_def findLesson_scheduledDb timestampsPreSave_def isModified_def
          exampleLesson_sel)
qed

text \<open>
  C10, amended. Archiving a stored lesson, whatever its state and whether or not the
  storage accepts the write, leaves the stored lesson equal to the old one in every path
  but \<^verbatim>\<open>status\<close> and \<^verbatim>\<open>updatedAt\<close>, in particular in \<^verbatim>\<open>publishAt\<close> and \<^verbatim>\<open>publishedAt\<close>,
  and leaves every other lesson, the terms, the programs and the assets as they were. An
  archived lesson is left as it is. When the write is accepted the stored lesson is the
  old one with status \<open>Archived\<close> and, if the status changed, \<^verbatim>\<open>updatedAt\<close> the clock.
\<close>

theorem archive_changes_status_only:
  assumes "findLesson d i = Some l" and "archiveLesson fails stamp d i = (res, d')"
  shows "(\<exists>l'. findLesson d' i = Some l'
              \<and> l' = l\<lparr>status := status l', updatedAt := updatedAt l'\<rparr>
              \<and> publishAt l' = publishAt l \<and> publishedAt l' = publishedAt l)
         \<and> (\<forall>j. j \<noteq> i \<longrightarrow> findLesson d' j = findLesson d j)
         \<and> terms d' = terms d \<and> programs d' = programs d \<and> lessonAssets d' = lessonAssets d
         \<and> (status l = Archived \<longrightarrow> findLesson d' i = Some l)
         \<and> (\<not> fails (WriteLesson i) \<longrightarrow>
               res = Inr (l\<lparr>status := Archived,
                              updatedAt := (if status l = Archived then updatedAt l else stamp)\<rparr>)
               \<and> findLesson d' i
                   = Some (l\<lparr>status := Archived,
                              updatedAt := (if status l = Archived then updatedAt l else stamp)\<rparr>))"
proof -
  let ?m = "l\<lparr>status := Archived\<rparr>"
  let ?l' = "l\<lparr>status := Archived, updatedAt := (if status l = Archived then updatedAt l else stamp)\<rparr>"
  have a: "archive fails stamp d i l = (res, d')"
    using assms by (simp add: archiveLesson_def)
  have same: "?l' = l" if "status l = Archived"
    using that by simp
  show ?thesis
  proof (cases "saveLesson fails stamp d i l ?m")
    case (Inl e)
    then have d: "d' = d"
      using a archive_unsaved [OF Inl] by simp
    have "fails (WriteLesson i)"
      using Inl assms(1) by (auto simp: saveLesson_def Let_def validatesOnSave_holds split: if_splits)
    with d assms(1) show ?thesis by simp
  next
    case (Inr r)
    obtain l'' d1 where r: "r = (l'', d1)" by (cases r)
    have s: "saveLesson fails stamp d i l ?m = Inr (l'', d1)" using Inr r by simp
    have m: "?m = l\<lparr>status := Archived, publishAt := publishAt l, publishedAt := publishedAt l\<rparr>"
      by simp
    from saveLesson_fresh [OF assms(1) s m]
    have l'': "l'' = ?l'" and f: "findLesson d1 i = Some l''"
      and fr: "\<forall>j. j \<noteq> i \<longrightarrow> findLesson d1 j = findLesson d j"
        "terms d1 = terms d" "programs d1 = programs d" "lessonAssets d1 = lessonAssets d"
      by (simp_all add: timestampsPreSave_archived)
    have rd: "res = Inr l''" "d' = d1"
      using a s by (simp_all add: archive_def Let_def)
    have 1: "\<exists>l'. findLesson d' i = Some l'
              \<and> l' = l\<lparr>status := status l', updatedAt := updatedAt l'\<rparr>
              \<and> publishAt l' = publishAt l \<and> publishedAt l' = publishedAt l"
      using f rd l'' by simp
    have 2: "status l = Archived \<longrightarrow> findLesson d' i = Some l"
      using f rd l'' same by auto
    from 1 2 fr rd f l'' show ?thesis by simp
  qed
qed

theorem archive_changes_status_only_witness:
  "findLesson scheduledDb 31 = Some (exampleLesson\<lparr>status := Scheduled, publishAt := Some 50\<rparr>)
   \<and> fst (archiveLesson noFaults 200 scheduledDb 31)
       = Inr (exampleLesson\<lparr>status := Archived, publishAt := Some 50, updatedAt := 200\<rparr>)
   \<and> findLesson (snd (archiveLesson noFaults 200 scheduledDb 31)) 31
       = Some (exampleLesson\<lparr>status := Archived, publishAt := Some 50, updatedAt := 200\<rparr>)"
proof -
  have f: "findLesson scheduledDb 31
             = Some (exampleLesson\<lparr>status := Scheduled, publishAt := Some 50\<rparr>)"
    by (rule findLesson_scheduledDb)
  show ?thesis
    using archive_changes_status_only [of scheduledDb 31 _ noFaults 200
        "fst (archiveLesson noFaults 200 scheduledDb 31)"
        "snd (archiveLesson noFaults 200 scheduledDb 31)", OF f surjective_pairing] f
    by (simp add: noFaults_simp)
qed

section \<open>The cascade to the parent program\<close>

text \<open>
  C4. Publishing a stored lesson with complete thumbnails, whose term and program exist
  and whose own write the storage accepts: when the program is a draft (and its write is
  accepted), the call succeeds and the program is stored with status \<open>ProgramPublished\<close>
  and a \<^verbatim>\<open>publishedAt\<close> that is not null (the one it had, else the clock's); when the
  program is already published or archived, the call succeeds as well and the programs are
  exactly as before.
\<close>

theorem publish_cascade:
  assumes "findLesson d i = Some l"
    and "hasThumbnail d i l Portrait" and "hasThumbnail d i l Landscape"
    and "\<not> fails (WriteLesson i)"
    and "findTerm d (termId l) = Some t" and "findProgram d (programId t) = Some p"
    and "publishLesson fails now stamp later d i = (res, d')"
  shows "(program.status p = ProgramDraft \<and> \<not> fails (WriteProgram (programId t)) \<longrightarrow>
            res = Inr (timestampsPreSave stamp l
                         (l\<lparr>status := Published, publishedAt := Some now, publishAt := None\<rparr>))
            \<and> (\<exists>p'. findProgram d' (programId t) = Some p'
                   \<and> program.status p' = ProgramPublished \<and> program.publishedAt p' \<noteq> None
                   \<and> program.publishedAt p'
                        = (case program.publishedAt p of Some x \<Rightarrow> Some x | None \<Rightarrow> Some later)))
         \<and> (program.status p \<noteq> ProgramDraft \<longrightarrow>
              res = Inr (timestampsPreSave stamp l
                           (l\<lparr>status := Published, publishedAt := Some now, publishAt := None\<rparr>))
              \<and> programs d' = programs d)"
proof -
  let ?l' = "timestampsPreSave stamp l
               (l\<lparr>status := Published, publishedAt := Some now, publishAt := None\<rparr>)"
  let ?p' = "p\<lparr>program.status := ProgramPublished,
                program.publishedAt :=
                  (case program.publishedAt p of Some x \<Rightarrow> Some x | None \<Rightarrow> Some later)\<rparr>"
  obtain d1 where s: "saveLesson fails stamp d i l
      (l\<lparr>status := Published, publishedAt := Some now, publishAt := None\<rparr>) = Inr (?l', d1)"
    using saveLesson_ok [of d i l l _ fails stamp] assms(1,4) by blast
  have d1: "programs d1 = programs d" "findProgram d1 (programId t) = Some p"
    using saveLesson_Inr [OF s] assms(6) by (auto simp: findProgram_def)
  have pub: "publish fails now stamp later d i l = (res, d')"
    using assms(1,7) by (simp add: publishLesson_def)
  have eq: "(res, d') =
     (if program.status p = ProgramDraft
      then (case saveProgram fails d1 (programId t) ?p' of
              Inl e \<Rightarrow> (Inl e, d1)
            | Inr d2 \<Rightarrow> (Inr ?l', d2))
      else (Inr ?l', d1))"
    using publish_saved [OF assms(2,3) s, of later] pub assms(5,6) by simp
  show ?thesis
  proof (intro conjI impI)
    assume a: "program.status p = ProgramDraft \<and> \<not> fails (WriteProgram (programId t))"
    then obtain d2 where s2: "saveProgram fails d1 (programId t) ?p' = Inr d2"
      using saveProgram_ok [of fails "programId t" d1 ?p'] d1 by auto
    with eq a have r: "res = Inr ?l'" "d' = d2" by simp_all
    from r show "res = Inr ?l'" by simp
    have "findProgram d2 (programId t) = Some ?p'"
      using saveProgram_Inr [OF s2, of "programId t"] by simp
    with r show "\<exists>p'. findProgram d' (programId t) = Some p'
                   \<and> program.status p' = ProgramPublished \<and> program.publishedAt p' \<noteq> None
                   \<and> program.publishedAt p'
                        = (case program.publishedAt p of Some x \<Rightarrow> Some x | None \<Rightarrow> Some later)"
      by (auto split: option.splits)
  next
    assume "program.status p \<noteq> ProgramDraft"
    with eq show "res = Inr ?l'" by simp
  next
    assume "program.status p \<noteq> ProgramDraft"
    with eq d1 show "programs d' = programs d" by simp
  qed
qed

theorem publish_cascade_witness:
  "(\<exists>p'. findProgram (snd (publishLesson noFaults 100 101 102 exampleDb 31)) 20 = Some p'
          \<and> program.status p' = ProgramPublished \<and> program.publishedAt p' = Some 102)
   \<and> fst (publishLesson noFaults 100 101 102 publishedDb 31)
       = Inr (exampleLesson\<lparr>status := Published, publishedAt := Some 100, publishAt := None,
                             updatedAt := 101\<rparr>)
   \<and> programs (snd (publishLesson noFaults 100 101 102 publishedDb 31))
       = [(20, exampleProgram\<lparr>program.status := ProgramPublished, program.publishedAt := Some 7\<rparr>)]"
proof -
  have en: "contentLanguagePrimary exampleLesson = ''en''" by (rule exampleLesson_sel)
  have h: "hasThumbnail exampleDb 31 exampleLesson Portrait"
    "hasThumbnail exampleDb 31 exampleLesson Landscape"
    by (simp_all add: hasThumbnail_exampleDb [OF en])
  have h': "hasThumbnail publishedDb 31 exampleLesson Portrait"
    "hasThumbnail publishedDb 31 exampleLesson Landscape"
    using h by (simp_all add: hasThumbnail_cong [OF lessonAssets_examples(2)])
  have nf: "\<not> noFaults (WriteLesson 31)" by (rule noFaults_simp)
  have t: "findTerm exampleDb (termId exampleLesson) = Some exampleTerm"
    "findTerm publishedDb (termId exampleLesson) = Some exampleTerm"
    by (simp_all add: exampleLesson_sel findTerm_examples)
  have p: "findProgram exampleDb (programId exampleTerm) = Some exampleProgram"
    "findProgram publishedDb (programId exampleTerm)
       = Some (exampleProgram\<lparr>program.status := ProgramPublished, program.publishedAt := Some 7\<rparr>)"
    by (simp_all add: findTerm_examples findProgram_examples)
  have a: "program.status exampleProgram = ProgramDraft
             \<and> \<not> noFaults (WriteProgram (programId exampleTerm))"
    by (simp add: findProgram_examples noFaults_simp)
  have b: "program.status (exampleProgram\<lparr>program.status := ProgramPublished,
             program.publishedAt := Some 7\<rparr>) \<noteq> ProgramDraft"
    by simp
  have first: "\<exists>p'. findProgram (snd (publishLesson noFaults 100 101 102 exampleDb 31))
                      (programId exampleTerm) = Some p'
                 \<and> program.status p' = ProgramPublished \<and> program.publishedAt p' \<noteq> None
                 \<and> program.publishedAt p'
                      = (case program.publishedAt exampleProgram of
                           Some x \<Rightarrow> Some x | None \<Rightarrow> Some 102)"
    using publish_cascade [of exampleDb 31 exampleLesson noFaults exampleTerm exampleProgram
        100 101 102, OF findLesson_exampleDb(1) h nf t(1) p(1) surjective_pairing] a
    by blast
  have second: "fst (publishLesson noFaults 100 101 102 publishedDb 31)
          = Inr (timestampsPreSave 101 exampleLesson
                   (exampleLesson\<lparr>status := Published, publishedAt := Some 100, publishAt := None\<rparr>))
        \<and> programs (snd (publishLesson noFaults 100 101 102 publishedDb 31)) = programs publishedDb"
    using publish_cascade [of publishedDb 31 exampleLesson noFaults exampleTerm _
        100 101 102, OF findLesson_publishedDb h' nf t(2) p(2) surjective_pairing] b
    by blast
  from first second show ?thesis
    by (auto simp add: findTerm_examples findProgram_examples programs_publishedDb
          timestampsPreSave_exampleLesson)
qed

section \<open>The write of publish-now\<close>

text \<open>
  C5, as the claim states it, fails. Lesson 31 was loaded as a draft and has been archived
  by someone else before the write (\<open>archivedDb\<close> is the database at write time):
  \<^verbatim>\<open>publish\<close> succeeds and the stored lesson is published; no conflict is signalled.
\<close>

theorem publish_conflict_counterexample:
  "map_option status (findLesson archivedDb 31) = Some Archived
   \<and> fst (publish noFaults 100 101 102 archivedDb 31 exampleLesson)
       = Inr (exampleLesson\<lparr>status := Published, publishedAt := Some 100, publishAt := None,
                             updatedAt := 101\<rparr>)
   \<and> map_option status
         (findLesson (snd (publish noFaults 100 101 102 archivedDb 31 exampleLesson)) 31)
       = Some Published"
proof -
  have en: "contentLanguagePrimary exampleLesson = ''en''" by (rule exampleLesson_sel)
  have nf: "\<not> noFaults (WriteLesson 31)" "\<forall>q. \<not> noFaults (WriteProgram q)"
    by (simp_all add: noFaults_simp)
  have 1: "fst (publish noFaults 100 101 102 archivedDb 31 exampleLesson)
             = Inr (timestampsPreSave 101 exampleLesson
                      (exampleLesson\<lparr>status := Published, publishedAt := Some 100, publishAt := None\<rparr>))"
    by (rule publish_returns [of archivedDb 31 exampleLesson _ noFaults 100 101 102,
          OF thumbnails_31(3,4) [OF en] findLesson_archivedDb nf])
  have 2: "findLesson (snd (publish noFaults 100 101 102 archivedDb 31 exampleLesson)) 31
             = Some (writeModified exampleLesson
                       (timestampsPreSave 101 exampleLesson
                          (exampleLesson\<lparr>status := Published, publishedAt := Some 100,
                                          publishAt := None\<rparr>))
                       (exampleLesson\<lparr>status := Archived\<rparr>))"
    by (rule publish_stored [of archivedDb 31 exampleLesson _ noFaults 100 101 102,
          OF thumbnails_31(3,4) [OF en] findLesson_archivedDb nf(1)])
  show ?thesis
    unfolding 1 2
    by (simp add: findLesson_archivedDb timestampsPreSave_exampleLesson writeModified_def
          exampleLesson_sel)
qed

text \<open>
  C5, amended. The write of publish-now is an update by \<^verbatim>\<open>_id\<close> of the paths that
  \<^verbatim>\<open>publish\<close> changed in the loaded document, with no condition on the stored status:
  whenever the thumbnails are complete, the lesson is still stored and the storage accepts
  the write, the stored lesson takes those paths and keeps its others. So a lesson loaded
  with any status but published is stored as published, whatever its stored status is at
  write time (a document loaded as published does not send the status). The call
  succeeds unless the storage refuses a program write. There is no conflict outcome.
\<close>

theorem publish_write_unconditional:
  assumes "findLesson d i = Some stored"
    and "hasThumbnail d i l Portrait" and "hasThumbnail d i l Landscape"
    and "\<not> fails (WriteLesson i)"
  shows "findLesson (snd (publish fails now stamp later d i l)) i
           = Some (writeModified l
                     (timestampsPreSave stamp l
                        (l\<lparr>status := Published, publishedAt := Some now, publishAt := None\<rparr>))
                     stored)
         \<and> (status l \<noteq> Published \<longrightarrow>
               map_option status (findLesson (snd (publish fails now stamp later d i l)) i)
                 = Some Published)
         \<and> ((\<forall>q. \<not> fails (WriteProgram q)) \<longrightarrow>
               fst (publish fails now stamp later d i l)
                 = Inr (timestampsPreSave stamp l
                          (l\<lparr>status := Published, publishedAt := Some now, publishAt := None\<rparr>)))"
proof -
  have 1: "findLesson (snd (publish fails now stamp later d i l)) i
           = Some (writeModified l
                     (timestampsPreSave stamp l
                        (l\<lparr>status := Published, publishedAt := Some now, publishAt := None\<rparr>))
                     stored)"
    using publish_stored [of d i l stored fails now stamp later] assms by blast
  have 2: "status l \<noteq> Published \<longrightarrow>
               map_option status (findLesson (snd (publish fails now stamp later d i l)) i)
                 = Some Published"
    unfolding 1 by (simp add: writeModified_def timestampsPreSave_sel)
  have 3: "(\<forall>q. \<not> fails (WriteProgram q)) \<longrightarrow>
               fst (publish fails now stamp later d i l)
                 = Inr (timestampsPreSave stamp l
                          (l\<lparr>status := Published, publishedAt := Some now, publishAt := None\<rparr>))"
    using publish_returns [of d i l stored fails now stamp later] assms by blast
  from 1 2 3 show ?thesis by blast
qed

theorem publish_write_unconditional_witness:
  "findLesson archivedDb 31 = Some (exampleLesson\<lparr>status := Archived\<rparr>)
   \<and> findLesson (snd (publish noFaults 100 101 102 archivedDb 31 exampleLesson)) 31
       = Some (exampleLesson\<lparr>status := Published, publishedAt := Some 100, updatedAt := 101\<rparr>)
   \<and> fst (publish noFaults 100 101 102 archivedDb 31 exampleLesson)
       = Inr (exampleLesson\<lparr>status := Published, publishedAt := Some 100, publishAt := None,
                             updatedAt := 101\<rparr>)"
proof -
  have en: "contentLanguagePrimary exampleLesson = ''en''" by (rule exampleLesson_sel)
  have nf: "\<not> noFaults (WriteLesson 31)" by (rule noFaults_simp)
  show ?thesis
    using publish_write_unconditional [of archivedDb 31 "exampleLesson\<lparr>status := Archived\<rparr>"
        exampleLesson noFaults 100 101 102,
        OF findLesson_archivedDb thumbnails_31(3,4) [OF en] nf]
    by (simp add: findLesson_archivedDb noFaults_simp timestampsPreSave_exampleLesson
          writeModified_def exampleLesson_sel)
qed

section \<open>A failing cascade write\<close>





section \<open>The status and the dates of a lesson\<close>

lemma lifecycleInvariant_assigned:
  "lifecycleInvariant
     (timestampsPreSave stamp l (l\<lparr>status := Published, publishedAt := Some now, publishAt := None\<rparr>))"
  "lifecycleInvariant
     (timestampsPreSave stamp l (l\<lparr>status := Scheduled, publishAt := Some t, publishedAt := None\<rparr>))"
  "lifecycleInvariant (timestampsPreSave stamp l (l\<lparr>status := Archived\<rparr>))"
  by (simp_all add: lifecycleInvariant_def timestampsPreSave_sel)

lemma allLessons_publishLesson:
  assumes "allLessons lifecycleInvariant d"
  shows "allLessons lifecycleInvariant (snd (publishLesson fails now stamp later d i))"
proof (cases "findLesson d i")
  case None
  with assms show ?thesis by (simp add: publishLesson_def)
next
  case (Some l)
  have "lifecycleInvariant x"
    if "(j, x) \<in> set (lessons (snd (publish fails now stamp later d i l)))" for j x
    using publish_set [OF Some that] assms
    by (auto simp: allLessons_def lifecycleInvariant_assigned)
  then show ?thesis
    using Some by (auto simp: allLessons_def publishLesson_def)
qed

lemma allLessons_saveLesson:
  assumes "allLessons lifecycleInvariant d" and "findLesson d i = Some l"
    and "saveLesson fails stamp d i l m = Inr (l', d1)"
    and "m = l\<lparr>status := s, publishAt := a, publishedAt := b\<rparr>"
    and "lifecycleInvariant (timestampsPreSave stamp l m)"
  shows "allLessons lifecycleInvariant d1"
proof -
  from saveLesson_fresh [OF assms(2,3,4)]
  have l': "l' = timestampsPreSave stamp l m"
    and st: "\<forall>j x. (j, x) \<in> set (lessons d1) \<longrightarrow> (j = i \<and> x = l') \<or> (j, x) \<in> set (lessons d)"
    by blast+
  have "lifecycleInvariant x" if "(j, x) \<in> set (lessons d1)" for j x
  proof -
    from st that have "(j = i \<and> x = l') \<or> (j, x) \<in> set (lessons d)" by blast
    then show ?thesis
    proof
      assume "j = i \<and> x = l'"
      with l' assms(5) show ?thesis by simp
    next
      assume "(j, x) \<in> set (lessons d)"
      with assms(1) show ?thesis unfolding allLessons_def by blast
    qed
  qed
  then show ?thesis unfolding allLessons_def by blast
qed

lemma allLessons_scheduleLesson:
  assumes "allLessons lifecycleInvariant d"
  shows "allLessons lifecycleInvariant (snd (scheduleLesson fails now stamp d i body))"
proof (cases body)
  case None
  with assms show ?thesis by (simp add: scheduleLesson_def)
next
  case (Some t)
  note body = this
  show ?thesis
  proof (cases "findLesson d i")
    case None
    with body assms show ?thesis by (simp add: scheduleLesson_def)
  next
    case (Some l)
    let ?m = "l\<lparr>status := Scheduled, publishAt := Some t, publishedAt := None\<rparr>"
    have eq: "scheduleLesson fails now stamp d i body = schedule fails now stamp d i l (Some t)"
      using body Some by (simp add: scheduleLesson_def)
    show ?thesis
    proof (cases "t \<le> now")
      case True
      with eq assms show ?thesis by (simp add: schedule_def)
    next
      case False
      show ?thesis
      proof (cases "saveLesson fails stamp d i l ?m")
        case (Inl e)
        with eq False assms show ?thesis by (simp add: schedule_def Let_def)
      next
        case (Inr r)
        obtain l' d1 where r: "r = (l', d1)" by (cases r)
        have s: "saveLesson fails stamp d i l ?m = Inr (l', d1)" using Inr r by simp
        have "allLessons lifecycleInvariant d1"
          by (rule allLessons_saveLesson [OF assms Some s refl lifecycleInvariant_assigned(2)])
        with eq False s show ?thesis by (simp add: schedule_def Let_def)
      qed
    qed
  qed
qed

lemma allLessons_archiveLesson:
  assumes "allLessons lifecycleInvariant d"
  shows "allLessons lifecycleInvariant (snd (archiveLesson fails stamp d i))"
proof (cases "findLesson d i")
  case None
  with assms show ?thesis by (simp add: archiveLesson_def)
next
  case (Some l)
  let ?m = "l\<lparr>status := Archived\<rparr>"
  have eq: "archiveLesson fails stamp d i = archive fails stamp d i l"
    using Some by (simp add: archiveLesson_def)
  show ?thesis
  proof (cases "saveLesson fails stamp d i l ?m")
    case (Inl e)
    with eq assms show ?thesis by (simp add: archive_def Let_def)
  next
    case (Inr r)
    obtain l' d1 where r: "r = (l', d1)" by (cases r)
    have s: "saveLesson fails stamp d i l ?m = Inr (l', d1)" using Inr r by simp
    have m: "?m = l\<lparr>status := Archived, publishAt := publishAt l, publishedAt := publishedAt l\<rparr>"
      by simp
    have "allLessons lifecycleInvariant d1"
      by (rule allLessons_saveLesson [OF assms Some s m lifecycleInvariant_assigned(3)])
    with eq s show ?thesis by (simp add: archive_def Let_def)
  qed
qed

lemma allLessons_applyOperation:
  assumes "allLessons lifecycleInvariant d"
  shows "allLessons lifecycleInvariant (applyOperation d fo)"
proof -
  obtain fails op where fo: "fo = (fails, op)" by (cases fo)
  show ?thesis
  proof (cases op)
    case (PublishNow i now stamp later)
    with fo allLessons_publishLesson [OF assms] show ?thesis by simp
  next
    case (Schedule i body now stamp)
    with fo allLessons_scheduleLesson [OF assms] show ?thesis by simp
  next
    case (Archive i stamp)
    with fo allLessons_archiveLesson [OF assms] show ?thesis by simp
  next
    case (WorkerRun now clock)
    with fo assms show ?thesis by (simp add: processScheduledLessons_db)
  qed
qed

lemma allLessons_run:
  "allLessons lifecycleInvariant d \<Longrightarrow> allLessons lifecycleInvariant (run d ops)"
  unfolding run_def
  by (induction ops arbitrary: d) (simp_all add: allLessons_applyOperation)

text \<open>
  C2, as the claim states it, fails: \<^verbatim>\<open>archive\<close> keeps the dates. Scheduling lesson 31
  and then archiving it leaves an archived lesson with a due time; publishing it and then
  archiving it leaves an archived lesson with a publication time.
\<close>

theorem lifecycle_biconditional_counterexample:
  "map_option status
     (findLesson (run exampleDb [(noFaults, Schedule 31 (Some 10) 5 6), (noFaults, Archive 31 7)]) 31)
     = Some Archived
   \<and> map_option publishAt
     (findLesson (run exampleDb [(noFaults, Schedule 31 (Some 10) 5 6), (noFaults, Archive 31 7)]) 31)
     = Some (Some 10)
   \<and> map_option status
     (findLesson (run exampleDb [(noFaults, PublishNow 31 100 101 102), (noFaults, Archive 31 103)]) 31)
     = Some Archived
   \<and> map_option publishedAt
     (findLesson (run exampleDb [(noFaults, PublishNow 31 100 101 102), (noFaults, Archive 31 103)]) 31)
     = Some (Some 100)"
proof -
  have nf: "\<not> noFaults (WriteLesson 31)" by (rule noFaults_simp)
  have en: "contentLanguagePrimary exampleLesson = ''en''" by (rule exampleLesson_sel)
  let ?s = "timestampsPreSave 6 exampleLesson
              (exampleLesson\<lparr>status := Scheduled, publishAt := Some 10, publishedAt := None\<rparr>)"
  obtain d1 where 1: "schedule noFaults 5 6 exampleDb 31 exampleLesson (Some 10) = (Inr ?s, d1)"
    and f1: "findLesson d1 31 = Some ?s"
    using schedule_success [of 5 10 exampleDb 31 exampleLesson noFaults 6]
    by (auto simp: findLesson_exampleDb nf)
  obtain d2 where 2: "archive noFaults 7 d1 31 ?s
                        = (Inr (timestampsPreSave 7 ?s (?s\<lparr>status := Archived\<rparr>)), d2)"
    and f2: "findLesson d2 31 = Some (timestampsPreSave 7 ?s (?s\<lparr>status := Archived\<rparr>))"
    using archive_success [of d1 31 ?s noFaults 7] f1 nf by blast
  have a: "run exampleDb [(noFaults, Schedule 31 (Some 10) 5 6), (noFaults, Archive 31 7)] = d2"
    by (simp add: run_def scheduleLesson_def archiveLesson_def findLesson_exampleDb 1 f1 2)
  let ?p = "timestampsPreSave 101 exampleLesson
              (exampleLesson\<lparr>status := Published, publishedAt := Some 100, publishAt := None\<rparr>)"
  obtain d3 where 3: "snd (publish noFaults 100 101 102 exampleDb 31 exampleLesson) = d3"
    and f3: "findLesson d3 31 = Some ?p"
    using publish_fresh_stored [of exampleDb 31 exampleLesson noFaults 100 101 102,
        OF thumbnails_31(1,2) [OF en] findLesson_exampleDb(1) nf]
    by simp
  obtain d4 where 4: "archive noFaults 103 d3 31 ?p
                        = (Inr (timestampsPreSave 103 ?p (?p\<lparr>status := Archived\<rparr>)), d4)"
    and f4: "findLesson d4 31 = Some (timestampsPreSave 103 ?p (?p\<lparr>status := Archived\<rparr>))"
    using archive_success [of d3 31 ?p noFaults 103] f3 nf by blast
  have b: "run exampleDb [(noFaults, PublishNow 31 100 101 102), (noFaults, Archive 31 103)] = d4"
    by (simp add: run_def publishLesson_def archiveLesson_def findLesson_exampleDb 3 f3 4)
  show ?thesis
    unfolding a b f2 f4 by (simp add: timestampsPreSave_sel)
qed

text \<open>
  C2, amended. From a database whose lessons satisfy it, after any sequence of publish,
  schedule and archive requests and worker runs, under any storage faults, every lesson
  satisfies: a scheduled lesson has a due time and a published lesson has a publication
  time; and for a lesson that is not archived the converses hold too (a due time only if
  scheduled, a publication time only if published).
\<close>

theorem lifecycle_invariant_preserved:
  assumes "allLessons lifecycleInvariant d"
  shows "allLessons lifecycleInvariant (run d ops)
         \<and> allLessons (\<lambda>l. (status l = Scheduled \<longrightarrow> publishAt l \<noteq> None)
                          \<and> (status l = Published \<longrightarrow> publishedAt l \<noteq> None)) (run d ops)"
proof -
  have inv: "allLessons lifecycleInvariant (run d ops)"
    using assms by (rule allLessons_run)
  have "(status l = Scheduled \<longrightarrow> publishAt l \<noteq> None)
        \<and> (status l = Published \<longrightarrow> publishedAt l \<noteq> None)" if "lifecycleInvariant l" for l
    using that by (cases "status l") (simp_all add: lifecycleInvariant_def)
  with inv show ?thesis
    unfolding allLessons_def by blast
qed

theorem lifecycle_invariant_preserved_witness:
  "allLessons lifecycleInvariant exampleDb
   \<and> allLessons lifecycleInvariant
         (run exampleDb [(noFaults, Schedule 31 (Some 10) 5 6), (noFaults, PublishNow 31 100 101 102),
                         (noFaults, WorkerRun 100 exampleClock), (noFaults, Archive 31 103)])"
  using lifecycle_invariant_preserved [OF allLessons_exampleDb,
      of "[(noFaults, Schedule 31 (Some 10) 5 6), (noFaults, PublishNow 31 100 101 102),
           (noFaults, WorkerRun 100 exampleClock), (noFaults, Archive 31 103)]"]
    allLessons_exampleDb
  by blast

section \<open>The worker on a lesson that is no longer scheduled\<close>

lemma isDue_simps:
  "status l \<noteq> Scheduled \<Longrightarrow> \<not> isDue now l"
  by (simp add: isDue_def)

lemma publishLesson_scheduledDb:
  "findLesson (snd (publishLesson noFaults 100 101 102 scheduledDb 31)) 31
     = Some (exampleLesson\<lparr>status := Published, publishedAt := Some 100, publishAt := None,
                            updatedAt := 101\<rparr>)"
proof -
  let ?l = "exampleLesson\<lparr>status := Scheduled, publishAt := Some 50\<rparr>"
  have en: "contentLanguagePrimary ?l = ''en''" by (simp add: exampleLesson_sel)
  have nf: "\<not> noFaults (WriteLesson 31)" by (rule noFaults_simp)
  have "findLesson (snd (publish noFaults 100 101 102 scheduledDb 31 ?l)) 31
          = Some (timestampsPreSave 101 ?l
                    (?l\<lparr>status := Published, publishedAt := Some 100, publishAt := None\<rparr>))"
    using publish_fresh_stored [of scheduledDb 31 ?l noFaults 100 101 102]
      thumbnails_31(5,6) [OF en] findLesson_scheduledDb(1) nf
    by blast
  then show ?thesis
    by (simp add: publishLesson_def findLesson_scheduledDb timestampsPreSave_def isModified_def)
qed

text \<open>
  C3. The worker's step for a stored lesson whose status is not \<^verbatim>\<open>scheduled\<close> (one that an
  earlier publication has already moved to \<^verbatim>\<open>published\<close>, say) is a no-op under any faults
  and at any time: it writes nothing, neither counter moves and no error is raised. A whole
  later run leaves the stored lesson, and so its \<^verbatim>\<open>publishedAt\<close>, as it was, and its query
  does not return the lesson.
\<close>

theorem processLesson_idempotent:
  assumes "findLesson d i = Some l" and "status l \<noteq> Scheduled"
  shows "processLesson fails clock i (d, r) = (d, r\<lparr>logged := logged r @ [(i, Inr DueNoOp)]\<rparr>)
         \<and> findLesson (fst (processScheduledLessons fails now clock d)) i = Some l
         \<and> (i, l) \<notin> set (dueLessons d now)"
proof (intro conjI)
  show "processLesson fails clock i (d, r) = (d, r\<lparr>logged := logged r @ [(i, Inr DueNoOp)]\<rparr>)"
    using assms by (intro processLesson_noop) simp
  show "findLesson (fst (processScheduledLessons fails now clock d)) i = Some l"
    using assms(1) by (simp add: processScheduledLessons_db)
  show "(i, l) \<notin> set (dueLessons d now)"
    using assms(2) by (simp add: set_dueLessons isDue_simps)
qed

theorem processLesson_idempotent_witness:
  "findLesson (snd (publishLesson noFaults 100 101 102 scheduledDb 31)) 31
     = Some (exampleLesson\<lparr>status := Published, publishedAt := Some 100, publishAt := None,
                            updatedAt := 101\<rparr>)
   \<and> processLesson noFaults exampleClock 31
         (snd (publishLesson noFaults 100 101 102 scheduledDb 31), emptyReport)
       = (snd (publishLesson noFaults 100 101 102 scheduledDb 31),
          emptyReport\<lparr>logged := [(31, Inr DueNoOp)]\<rparr>)
   \<and> findLesson (fst (processScheduledLessons noFaults 200 exampleClock
                        (snd (publishLesson noFaults 100 101 102 scheduledDb 31)))) 31
       = Some (exampleLesson\<lparr>status := Published, publishedAt := Some 100, publishAt := None,
                              updatedAt := 101\<rparr>)"
proof -
  let ?D = "snd (publishLesson noFaults 100 101 102 scheduledDb 31)"
  let ?p = "exampleLesson\<lparr>status := Published, publishedAt := Some 100, publishAt := None,
                           updatedAt := 101\<rparr>"
  have s: "status ?p \<noteq> Scheduled" by simp
  have e: "logged emptyReport = []" by (simp add: emptyReport_def)
  show ?thesis
    using processLesson_idempotent [of ?D 31 ?p noFaults exampleClock emptyReport 200,
        OF publishLesson_scheduledDb s] publishLesson_scheduledDb
    unfolding e by simp
qed

section \<open>The worker on a due lesson\<close>

lemma dueLessons_scheduledDb:
  "dueLessons scheduledDb 100
     = [(32, exampleLesson\<lparr>lessonNumber := 2, status := Scheduled, publishAt := Some 40\<rparr>),
        (31, exampleLesson\<lparr>status := Scheduled, publishAt := Some 50\<rparr>)]"
  by (simp add: dueLessons_def scheduledDb_def isDue_def)

text \<open>
  C6, in the worker as it is shipped. The worker registers the models \<^verbatim>\<open>Lesson\<close>,
  \<^verbatim>\<open>Term\<close> and \<^verbatim>\<open>Program\<close> only, so \<^verbatim>\<open>validateAssets\<close> throws at its lookup of
  \<^verbatim>\<open>LessonAsset\<close> for every lesson that is still scheduled, whatever thumbnails it has.
  The step ends in the \<^verbatim>\<open>catch\<close> of the loop: the database is unchanged, so the lesson
  remains scheduled with its due time, one error is counted and the loop goes on; but the
  error is the lookup's, not a report of the missing variants.
\<close>

theorem worker_asset_check_throws:
  assumes "findLesson d i = Some l" and "status l = Scheduled"
  shows "workerValidateAssets d i l = Inl MissingSchemaError
         \<and> processLesson fails clock i (d, r)
             = (d, r\<lparr>errors := errors r + 1, logged := logged r @ [(i, Inl MissingSchemaError)]\<rparr>)"
  using processLesson_scheduled [OF assms] by (simp add: workerValidateAssets_throws)

theorem worker_asset_check_throws_witness:
  "findLesson scheduledDb 32
     = Some (exampleLesson\<lparr>lessonNumber := 2, status := Scheduled, publishAt := Some 40\<rparr>)
   \<and> missingVariants (validateAssets scheduledDb 32
        (exampleLesson\<lparr>lessonNumber := 2, status := Scheduled, publishAt := Some 40\<rparr>))
       = [Landscape]
   \<and> processLesson noFaults exampleClock 32 (scheduledDb, emptyReport)
       = (scheduledDb, emptyReport\<lparr>errors := 1, logged := [(32, Inl MissingSchemaError)]\<rparr>)
   \<and> processScheduledLessons noFaults 100 exampleClock scheduledDb
       = (scheduledDb, \<lparr>totalFound = 2, processed = 0, errors = 2,
                         logged = [(32, Inl MissingSchemaError), (31, Inl MissingSchemaError)]\<rparr>)"
proof -
  let ?l32 = "exampleLesson\<lparr>lessonNumber := 2, status := Scheduled, publishAt := Some 40\<rparr>"
  let ?l31 = "exampleLesson\<lparr>status := Scheduled, publishAt := Some 50\<rparr>"
  have s: "status ?l32 = Scheduled" "status ?l31 = Scheduled" by simp_all
  have en: "contentLanguagePrimary ?l32 = ''en''" by (simp add: exampleLesson_sel)
  have m: "missingVariants (validateAssets scheduledDb 32 ?l32) = [Landscape]"
    by (simp add: missingVariants_validateAssets hasThumbnail_cong [OF lessonAssets_examples(1)]
          hasThumbnail_exampleDb(2) [OF en])
  have e: "errors emptyReport = 0" "logged emptyReport = []" by (simp_all add: emptyReport_def)
  have 1: "processLesson noFaults exampleClock 32 (scheduledDb, r)
      = (scheduledDb, r\<lparr>errors := errors r + 1, logged := logged r @ [(32, Inl MissingSchemaError)]\<rparr>)" for r
    using worker_asset_check_throws [OF findLesson_scheduledDb(2) s(1), of noFaults exampleClock r]
    by simp
  have 2: "processLesson noFaults exampleClock 31 (scheduledDb, r)
      = (scheduledDb, r\<lparr>errors := errors r + 1, logged := logged r @ [(31, Inl MissingSchemaError)]\<rparr>)" for r
    using worker_asset_check_throws [OF findLesson_scheduledDb(1) s(2), of noFaults exampleClock r]
    by simp
  have run: "processScheduledLessons noFaults 100 exampleClock scheduledDb
       = (scheduledDb, \<lparr>totalFound = 2, processed = 0, errors = 2,
                         logged = [(32, Inl MissingSchemaError), (31, Inl MissingSchemaError)]\<rparr>)"
    by (simp add: processScheduledLessons_def Let_def dueLessons_scheduledDb 1 2)
  show ?thesis
    using findLesson_scheduledDb(2) m 1 [of emptyReport] run unfolding e by simp
qed

end
